(* ===== verification/Prelude.thy ===== *)
theory Prelude
  imports Main "HOL-Library.Word" "HOL-Library.Sublist" "HOL-Library.AList"
begin

text \<open>
  Shared vocabulary of the development: the Python exceptions the script can raise, the
  exception-and-state monad in which every effectful operation of the model is written,
  the string helpers that turn Python path strings into path components, and the generic
  lemmas on these that the component theories share.
\<close>

named_theorems io_simps "unfolding rules of the exception-and-state monad"
named_theorems path_simps "evaluation rules of path splitting"

section \<open>Types\<close>

type_synonym byte = "8 word"

text \<open>An absolute file-system path as its list of components, the root being \<open>[]\<close>.\<close>
type_synonym path = "string list"

text \<open>
  The Python exceptions that can escape from the script. \<open>OSError\<close> stands for the
  generic \<open>OSError\<close> Pillow raises when an encoder cannot write an image mode.
\<close>
datatype py_error =
    FileNotFoundError
  | FileExistsError
  | NotADirectoryError
  | IsADirectoryError
  | PermissionError
  | UnidentifiedImageError
  | ValueError
  | OSError
  | KeyError

text \<open>
  A computation over a state \<open>'s\<close> that either returns a value or raises an exception;
  in both cases the state it leaves behind is kept, because effects performed before an
  exception are not undone in Python.
\<close>
type_synonym ('s, 'a) io = "'s \<Rightarrow> (py_error + 'a) \<times> 's"

definition ret :: "'a \<Rightarrow> ('s, 'a) io" where
  "ret a = (\<lambda>s. (Inr a, s))"

definition raise :: "py_error \<Rightarrow> ('s, 'a) io" where
  "raise e = (\<lambda>s. (Inl e, s))"

definition bind_io :: "('s, 'a) io \<Rightarrow> ('a \<Rightarrow> ('s, 'b) io) \<Rightarrow> ('s, 'b) io" where
  "bind_io m f = (\<lambda>s. case m s of (Inl e, s') \<Rightarrow> (Inl e, s') | (Inr a, s') \<Rightarrow> f a s')"

text \<open>A pure computation that may raise, run without touching the state.\<close>
definition lift :: "py_error + 'a \<Rightarrow> ('s, 'a) io" where
  "lift r = (\<lambda>s. (r, s))"

text \<open>\<open>try: m except e: h e\<close>, with the handler seeing the state left by \<open>m\<close>.\<close>
definition catch :: "('s, 'a) io \<Rightarrow> (py_error \<Rightarrow> ('s, 'a) io) \<Rightarrow> ('s, 'a) io" where
  "catch m h = (\<lambda>s. case m s of (Inl e, s') \<Rightarrow> h e s' | (Inr a, s') \<Rightarrow> (Inr a, s'))"

text \<open>A state update that cannot fail.\<close>
definition modify :: "('s \<Rightarrow> 's) \<Rightarrow> ('s, unit) io" where
  "modify f = (\<lambda>s. (Inr (), f s))"

text \<open>Sequencing of pure computations that may raise.\<close>
definition bind_r :: "py_error + 'a \<Rightarrow> ('a \<Rightarrow> py_error + 'b) \<Rightarrow> py_error + 'b" where
  "bind_r r f = (case r of Inl e \<Rightarrow> Inl e | Inr a \<Rightarrow> f a)"

text \<open>A state property that an action keeps, whether it returns or raises.\<close>
definition io_inv :: "('s \<Rightarrow> bool) \<Rightarrow> ('s, 'a) io \<Rightarrow> bool" where
  "io_inv P m \<longleftrightarrow> (\<forall>s. P s \<longrightarrow> P (snd (m s)))"

section \<open>Strings and paths\<close>

text \<open>\<open>str.split(c)\<close>: never empty, one piece more than there are separators.\<close>
fun split_on :: "char \<Rightarrow> string \<Rightarrow> string list" where
  "split_on c [] = [[]]"
| "split_on c (x # xs) =
     (let r = split_on c xs in if x = c then [] # r else (x # hd r) # tl r)"

text \<open>
  The components of a slash-separated path string, as the kernel's path walk sees them:
  empty components (from \<open>//\<close> or a trailing slash) are skipped.
\<close>
definition path_components :: "string \<Rightarrow> string list" where
  "path_components s = filter (\<lambda>c. c \<noteq> []) (split_on (CHR ''/'') s)"

text \<open>Resolution of a path string against the current directory.\<close>
definition resolve :: "path \<Rightarrow> string \<Rightarrow> path" where
  "resolve cwd s = (if take 1 s = ''/'' then [] else cwd) @ path_components s"

text \<open>Printing a path: \<open>'/'.join(cs)\<close>.\<close>
fun join_path :: "string list \<Rightarrow> string" where
  "join_path [] = []"
| "join_path [c] = c"
| "join_path (c # cs) = c @ ''/'' @ join_path cs"

text \<open>A component is well-formed when it is non-empty and holds no separator.\<close>
definition good_component :: "string \<Rightarrow> bool" where
  "good_component c \<longleftrightarrow> c \<noteq> [] \<and> CHR ''/'' \<notin> set c"

section \<open>The monad\<close>

lemma bind_io_apply [io_simps]:
  "bind_io m f s = (case m s of (Inl e, s') \<Rightarrow> (Inl e, s') | (Inr a, s') \<Rightarrow> f a s')"
  by (simp add: bind_io_def)

lemma catch_apply [io_simps]:
  "catch m h s = (case m s of (Inl e, s') \<Rightarrow> h e s' | (Inr a, s') \<Rightarrow> (Inr a, s'))"
  by (simp add: catch_def)

lemma ret_apply [io_simps]: "ret a s = (Inr a, s)"
  and raise_apply [io_simps]: "raise e s = (Inl e, s)"
  and lift_apply [io_simps]: "lift r s = (r, s)"
  and modify_apply [io_simps]: "modify f s = (Inr (), f s)"
  by (simp_all add: ret_def raise_def lift_def modify_def)

lemma bind_r_simps [simp]:
  "bind_r (Inl e) f = Inl e" "bind_r (Inr a) f = f a"
  by (simp_all add: bind_r_def)

lemma bind_r_eq_Inr: "bind_r r f = Inr b \<longleftrightarrow> (\<exists>a. r = Inr a \<and> f a = Inr b)"
  by (cases r) simp_all

lemma bind_io_ret [simp]: "bind_io (ret a) f = f a"
  by (simp add: bind_io_def ret_def)

lemma bind_io_raise [simp]: "bind_io (raise e) f = raise e"
  by (simp add: bind_io_def raise_def)

lemma bind_io_Inr:
  "m s = (Inr a, s') \<Longrightarrow> bind_io m f s = f a s'"
  by (simp add: bind_io_def)

lemma bind_io_Inl:
  "m s = (Inl e, s') \<Longrightarrow> bind_io m f s = (Inl e, s')"
  by (simp add: bind_io_def)

subsection \<open>Invariants of actions\<close>

named_theorems io_inv_intros "rules that an action keeps a state invariant"

lemma io_inv_ret [io_inv_intros]: "io_inv P (ret a)"
  and io_inv_raise [io_inv_intros]: "io_inv P (raise e)"
  and io_inv_lift [io_inv_intros]: "io_inv P (lift r)"
  by (simp_all add: io_inv_def io_simps)

lemma io_inv_modify [io_inv_intros]: "(\<And>s. P s \<Longrightarrow> P (f s)) \<Longrightarrow> io_inv P (modify f)"
  by (simp add: io_inv_def io_simps)

lemma io_inv_bind [io_inv_intros]:
  "io_inv P m \<Longrightarrow> (\<And>a. io_inv P (f a)) \<Longrightarrow> io_inv P (bind_io m f)"
  unfolding io_inv_def bind_io_def
  by (auto split: prod.splits sum.splits)

lemma io_inv_catch [io_inv_intros]:
  "io_inv P m \<Longrightarrow> (\<And>e. io_inv P (h e)) \<Longrightarrow> io_inv P (catch m h)"
  unfolding io_inv_def catch_def
  by (auto split: prod.splits sum.splits)

lemma io_inv_if [io_inv_intros]:
  "(b \<Longrightarrow> io_inv P m) \<Longrightarrow> (\<not> b \<Longrightarrow> io_inv P m') \<Longrightarrow> io_inv P (if b then m else m')"
  by simp

lemma io_inv_cond [io_inv_intros]:
  "(\<And>s. c s \<Longrightarrow> io_inv P m) \<Longrightarrow> (\<And>s. \<not> c s \<Longrightarrow> io_inv P m') \<Longrightarrow>
   io_inv P (\<lambda>s. if c s then m s else m' s)"
  unfolding io_inv_def by auto

text \<open>Sequencing where the continuation only has to keep the invariant for values the first action can return.\<close>
lemma io_inv_bindI:
  "io_inv P m \<Longrightarrow> (\<And>s a s'. m s = (Inr a, s') \<Longrightarrow> Q a) \<Longrightarrow> (\<And>a. Q a \<Longrightarrow> io_inv P (f a)) \<Longrightarrow>
   io_inv P (bind_io m f)"
  unfolding io_inv_def bind_io_def by (fastforce split: prod.splits sum.splits)

lemma io_invD: "io_inv P m \<Longrightarrow> P s \<Longrightarrow> m s = (r, s') \<Longrightarrow> P s'"
  unfolding io_inv_def by (metis snd_conv)

section \<open>Lists\<close>

lemma fold_fixpoint: "(\<And>x. x \<in> set xs \<Longrightarrow> f x s = s) \<Longrightarrow> fold f xs s = s"
  by (induction xs) simp_all

lemma find_append_None: "find P xs = None \<Longrightarrow> find P (xs @ ys) = find P ys"
  by (induction xs) (simp_all split: if_splits)

text \<open>Updating a key with the value it already has changes nothing.\<close>
lemma update_same: "map_of al k = Some v \<Longrightarrow> AList.update k v al = al"
  by (induction al) auto

text \<open>A fold that keeps one of the elements it visits ends on one of them.\<close>
lemma fold_pick_in:
  "fold (\<lambda>f best. if P f best then f else best) xs b \<in> insert b (set xs)"
proof (induction xs arbitrary: b)
  case (Cons x xs)
  show ?case using Cons.IH [of "if P x b then x else b"] by (auto split: if_splits)
qed simp

section \<open>Paths\<close>

lemma split_on_nonempty [simp]: "split_on c xs \<noteq> []"
  by (induction xs) (simp_all add: Let_def)

lemma split_on_append:
  "c \<notin> set xs \<Longrightarrow> split_on c (xs @ ys) = (xs @ hd (split_on c ys)) # tl (split_on c ys)"
  by (induction xs) (auto simp: Let_def)

lemma split_on_no_sep: "c \<notin> set xs \<Longrightarrow> split_on c xs = [xs]"
  using split_on_append [of c xs "[]"] by simp

lemma split_on_sep_append:
  "c \<notin> set xs \<Longrightarrow> split_on c (xs @ c # ys) = xs # split_on c ys"
  using split_on_append [of c xs "c # ys"] by (simp add: Let_def)

lemma split_on_join:
  "cs \<noteq> [] \<Longrightarrow> \<forall>x\<in>set cs. CHR ''/'' \<notin> set x \<Longrightarrow>
   split_on (CHR ''/'') (join_path cs) = cs"
proof (induction cs rule: join_path.induct)
  case 1
  then show ?case by simp
next
  case (2 c)
  then show ?case by (simp add: split_on_no_sep)
next
  case (3 c d cs)
  then show ?case by (simp add: split_on_sep_append)
qed

end
