(* ===== verification/Pillow_Image.thy ===== *)
theory Pillow_Image
  imports Prelude
begin

text \<open>
  The in-memory images of Pillow that the script manipulates: \<open>Image.convert\<close> (the
  Python method and the per-pixel converters of libImaging's \<open>Convert.c\<close>) and
  \<open>Image.resize\<close> (the Python method with its premultiplied-alpha detour, the size
  check and copy of the C binding \<open>_resize\<close>, and its nearest-neighbour path). The
  convolution kernel \<open>ImagingResample\<close> that the other filters run is an interface:
  a function producing the output pixels, with the contract that it produces one pixel
  of the right number of bands per output position.
  Modes are the four straight modes \<open>L\<close>, \<open>LA\<close>, \<open>RGB\<close>, \<open>RGBA\<close> and the two
  premultiplied ones Pillow uses while resampling; palette and bilevel images are not
  modelled. A pixel is the list of its band values.
\<close>

datatype mode = L | LA | La | RGB | RGBA | RGBa

text \<open>\<open>Image.Resampling\<close>.\<close>
datatype resample = NEAREST | BOX | BILINEAR | HAMMING | BICUBIC | LANCZOS

fun bands :: "mode \<Rightarrow> nat" where
  "bands L = 1"
| "bands LA = 2"
| "bands La = 2"
| "bands RGB = 3"
| "bands RGBA = 4"
| "bands RGBa = 4"

type_synonym pixel = "byte list"

text \<open>
  An image: its mode, its size, its pixels in row-major order, and the colour-key
  transparency that a PNG \<open>tRNS\<close> chunk puts into \<open>info['transparency']\<close>.
\<close>
record image =
  im_mode :: mode
  im_width :: nat
  im_height :: nat
  im_pixels :: "pixel list"
  im_transparency :: "pixel option"

definition wf_image :: "image \<Rightarrow> bool" where
  "wf_image im \<longleftrightarrow>
     0 < im_width im \<and> 0 < im_height im \<and>
     length (im_pixels im) = im_width im * im_height im \<and>
     list_all (\<lambda>p. length p = bands (im_mode im)) (im_pixels im) \<and>
     (case im_transparency im of
        None \<Rightarrow> True
      | Some k \<Rightarrow> im_mode im \<in> {L, RGB} \<and> length k = bands (im_mode im))"

text \<open>The straight (not premultiplied) modes, the ones images are decoded in.\<close>
definition straight :: "mode \<Rightarrow> bool" where
  "straight m \<longleftrightarrow> m \<in> {L, LA, RGB, RGBA}"

text \<open>
  The alpha a pixel of an image stands for: its alpha band when the mode has one, and
  otherwise 0 for the transparency key and 255 for every other pixel.
\<close>
definition alpha_of :: "image \<Rightarrow> pixel \<Rightarrow> byte" where
  "alpha_of im p =
     (case im_mode im of
        LA \<Rightarrow> p ! 1 | La \<Rightarrow> p ! 1 | RGBA \<Rightarrow> p ! 3 | RGBa \<Rightarrow> p ! 3
      | _ \<Rightarrow> if im_transparency im = Some p then 0 else 255)"

text \<open>A well-formed image of a given mode and size.\<close>
definition sized :: "mode \<Rightarrow> nat \<Rightarrow> nat \<Rightarrow> image \<Rightarrow> bool" where
  "sized m w h im \<longleftrightarrow> wf_image im \<and> im_mode im = m \<and> im_width im = w \<and> im_height im = h"

section \<open>Pixel arithmetic of libImaging\<close>

text \<open>\<open>L24(rgb) >> 16\<close>: ITU-R 601-2 luma in 16-bit fixed point.\<close>
definition L24 :: "byte \<Rightarrow> byte \<Rightarrow> byte \<Rightarrow> byte" where
  "L24 r g b = of_nat ((unat r * 19595 + unat g * 38470 + unat b * 7471 + 32768) div 65536)"

text \<open>\<open>MULDIV255(a, b, tmp)\<close>: \<open>tmp = a * b + 128; ((tmp >> 8) + tmp) >> 8\<close>.\<close>
definition muldiv255 :: "byte \<Rightarrow> byte \<Rightarrow> byte" where
  "muldiv255 a b = (let t = unat a * unat b + 128 in of_nat ((t div 256 + t) div 256))"

text \<open>
  Undoing premultiplication, as \<open>rgba2rgbA\<close> and \<open>la2lA\<close> do for one band: a fully
  opaque or fully transparent pixel is copied, otherwise \<open>CLIP8((255 * c) / alpha)\<close>.
\<close>
definition unpremul :: "byte \<Rightarrow> byte \<Rightarrow> byte" where
  "unpremul c a = (if a = 255 \<or> a = 0 then c else of_nat (min 255 ((255 * unat c) div unat a)))"

text \<open>The converters of \<open>Convert.c\<close> between the modelled modes.\<close>
fun convert_pixel :: "mode \<Rightarrow> mode \<Rightarrow> (pixel \<Rightarrow> pixel) option" where
  "convert_pixel L LA = Some (\<lambda>p. [p ! 0, 255])"
| "convert_pixel L RGB = Some (\<lambda>p. [p ! 0, p ! 0, p ! 0])"
| "convert_pixel L RGBA = Some (\<lambda>p. [p ! 0, p ! 0, p ! 0, 255])"
| "convert_pixel LA L = Some (\<lambda>p. [p ! 0])"
| "convert_pixel LA La = Some (\<lambda>p. [muldiv255 (p ! 0) (p ! 1), p ! 1])"
| "convert_pixel LA RGB = Some (\<lambda>p. [p ! 0, p ! 0, p ! 0])"
| "convert_pixel LA RGBA = Some (\<lambda>p. [p ! 0, p ! 0, p ! 0, p ! 1])"
| "convert_pixel La LA = Some (\<lambda>p. [unpremul (p ! 0) (p ! 1), p ! 1])"
| "convert_pixel RGB L = Some (\<lambda>p. [L24 (p ! 0) (p ! 1) (p ! 2)])"
| "convert_pixel RGB LA = Some (\<lambda>p. [L24 (p ! 0) (p ! 1) (p ! 2), 255])"
| "convert_pixel RGB RGBA = Some (\<lambda>p. [p ! 0, p ! 1, p ! 2, 255])"
| "convert_pixel RGBA L = Some (\<lambda>p. [L24 (p ! 0) (p ! 1) (p ! 2)])"
| "convert_pixel RGBA LA = Some (\<lambda>p. [L24 (p ! 0) (p ! 1) (p ! 2), p ! 3])"
| "convert_pixel RGBA RGB = Some (\<lambda>p. [p ! 0, p ! 1, p ! 2])"
| "convert_pixel RGBA RGBa =
     Some (\<lambda>p. [muldiv255 (p ! 0) (p ! 3), muldiv255 (p ! 1) (p ! 3), muldiv255 (p ! 2) (p ! 3), p ! 3])"
| "convert_pixel RGBa RGBA =
     Some (\<lambda>p. [unpremul (p ! 0) (p ! 3), unpremul (p ! 1) (p ! 3), unpremul (p ! 2) (p ! 3), p ! 3])"
| "convert_pixel m m' = None"

section \<open>Image.convert\<close>

text \<open>
  \<open>ImagingConvertTransparent\<close> followed by \<open>rgbT2rgba\<close>: the image is converted and
  every pixel equal to the transparency key gets alpha 0.
\<close>
definition convert_transparent :: "(pixel \<Rightarrow> pixel) \<Rightarrow> pixel \<Rightarrow> mode \<Rightarrow> image \<Rightarrow> image" where
  "convert_transparent f key m im =
     im\<lparr>im_mode := m,
        im_pixels := map (\<lambda>p. if p = key then butlast (f p) @ [0] else f p) (im_pixels im),
        im_transparency := None\<rparr>"

text \<open>
  \<open>Image.convert(mode)\<close>: the same mode gives a copy; an \<open>L\<close> or \<open>RGB\<close> image with a
  transparency key promoted to an alpha mode turns the key into alpha; otherwise the pixel
  converter runs, the key is converted with it when the target has no alpha and dropped
  otherwise, and a pair of modes without a converter raises \<open>ValueError\<close>.
\<close>
definition convert :: "image \<Rightarrow> mode \<Rightarrow> py_error + image" where
  "convert im m =
     (if m = im_mode im then Inr im
      else case convert_pixel (im_mode im) m of
        None \<Rightarrow> Inl ValueError
      | Some f \<Rightarrow>
          (case im_transparency im of
             Some key \<Rightarrow>
               if (im_mode im = L \<and> m \<in> {LA, RGBA}) \<or> (im_mode im = RGB \<and> m = RGBA)
               then Inr (convert_transparent f key m im)
               else Inr (im\<lparr>im_mode := m, im_pixels := map f (im_pixels im),
                            im_transparency := (if m \<in> {L, RGB} then Some (f key) else None)\<rparr>)
           | None \<Rightarrow> Inr (im\<lparr>im_mode := m, im_pixels := map f (im_pixels im)\<rparr>)))"

section \<open>Image.resize\<close>

text \<open>
  The convolution kernel \<open>ImagingResample(im, xsize, ysize, filter, box)\<close> for the
  filters other than \<open>NEAREST\<close>: the output pixels for a target size.
\<close>
type_synonym resampler = "resample \<Rightarrow> nat \<Rightarrow> nat \<Rightarrow> image \<Rightarrow> pixel list"

definition resampler_ok :: "resampler \<Rightarrow> bool" where
  "resampler_ok rs \<longleftrightarrow>
     (\<forall>f w h im. wf_image im \<and> 0 < w \<and> 0 < h \<longrightarrow>
        length (rs f w h im) = w * h \<and>
        list_all (\<lambda>p. length p = bands (im_mode im)) (rs f w h im))"

text \<open>
  The \<open>NEAREST\<close> path of \<open>_resize\<close>: an affine transform with scale
  \<open>in / out\<close> sampled at pixel centres, so output column \<open>x\<close> reads source column
  \<open>floor((x + 0.5) * in_w / out_w)\<close>.
\<close>
definition nearest_index :: "nat \<Rightarrow> nat \<Rightarrow> nat \<Rightarrow> nat" where
  "nearest_index n_in n_out x = ((2 * x + 1) * n_in) div (2 * n_out)"

definition nearest_pixels :: "nat \<Rightarrow> nat \<Rightarrow> image \<Rightarrow> pixel list" where
  "nearest_pixels w h im =
     concat (map (\<lambda>y. map (\<lambda>x. im_pixels im !
                             (nearest_index (im_height im) h y * im_width im + nearest_index (im_width im) w x))
                         [0..<w])
                 [0..<h])"

text \<open>
  \<open>self._new(self.im.resize(size, resample, box))\<close>: the C binding rejects a size below
  one, copies the pixels when the size is unchanged, transforms for \<open>NEAREST\<close> and
  resamples otherwise; \<open>_new\<close> keeps the mode and the \<open>info\<close> of the source.
\<close>
definition resize_core :: "resampler \<Rightarrow> resample \<Rightarrow> nat \<Rightarrow> nat \<Rightarrow> image \<Rightarrow> py_error + image" where
  "resize_core rs f w h im =
     (if w < 1 \<or> h < 1 then Inl ValueError
      else Inr (im\<lparr>im_width := w, im_height := h,
                   im_pixels := (if im_width im = w \<and> im_height im = h then im_pixels im
                                 else if f = NEAREST then nearest_pixels w h im
                                 else rs f w h im)\<rparr>))"

text \<open>\<open>{'LA': 'La', 'RGBA': 'RGBa'}[self.mode]\<close>.\<close>
fun premultiplied :: "mode \<Rightarrow> mode" where
  "premultiplied LA = La"
| "premultiplied RGBA = RGBa"
| "premultiplied m = m"

text \<open>
  \<open>Image.resize(size, resample)\<close> with no box: an unchanged size gives a copy; an image
  with straight alpha is resampled premultiplied and converted back; otherwise the core
  runs.
\<close>
definition resize :: "resampler \<Rightarrow> image \<Rightarrow> nat \<times> nat \<Rightarrow> resample \<Rightarrow> py_error + image" where
  "resize rs im sz f =
     (case sz of (w, h) \<Rightarrow>
       if im_width im = w \<and> im_height im = h then Inr im
       else if im_mode im \<in> {LA, RGBA} \<and> f \<noteq> NEAREST then
         bind_r (convert im (premultiplied (im_mode im))) (\<lambda>im1.
         bind_r (resize_core rs f w h im1) (\<lambda>im2.
         convert im2 (im_mode im)))
       else resize_core rs f w h im)"

section \<open>Pixel arithmetic\<close>

lemma unat_byte_le: "unat (b :: byte) \<le> 255"
proof -
  have "unat b < 2 ^ LENGTH(8)" by (rule unsigned_less)
  then show ?thesis by simp
qed

lemma muldiv_nat:
  assumes "(x :: nat) \<le> 65025"
  shows "((x + 128) div 256 + (x + 128)) div 256 = (x + 127) div 255"
proof -
  define k where "k = (x + 127) div 255"
  define r where "r = (x + 127) mod 255"
  have x: "x + 128 = 255 * k + r + 1" and r: "r < 255"
    by (simp_all add: k_def r_def)
  from assms have k: "k \<le> 255" by (simp add: k_def)
  have "((x + 128) div 256 + (x + 128)) div 256 = k"
  proof (cases "k \<le> r + 1")
    case True
    then have "(x + 128) div 256 = k" using x r by (intro div_nat_eqI) simp_all
    then show ?thesis using x r True by (intro div_nat_eqI) simp_all
  next
    case False
    then have "(x + 128) div 256 = k - 1" using x r k by (intro div_nat_eqI) simp_all
    then show ?thesis using x r k False by (intro div_nat_eqI) simp_all
  qed
  then show ?thesis by (simp add: k_def)
qed

lemma unat_of_nat_byte: "n < 256 \<Longrightarrow> unat (of_nat n :: byte) = n"
  by (simp add: unat_of_nat)

section \<open>Image.convert\<close>

lemma bands_pos [simp]: "0 < bands m"
  by (cases m) simp_all

lemma convert_pixel_bands:
  "convert_pixel m m' = Some f \<Longrightarrow> length p = bands m \<Longrightarrow> length (f p) = bands m'"
  by (cases m; cases m') auto

lemma convert_pixel_straight:
  "straight m \<Longrightarrow> straight m' \<Longrightarrow> m \<noteq> m' \<Longrightarrow> \<exists>f. convert_pixel m m' = Some f"
  by (cases m; cases m') (simp_all add: straight_def)

lemma convert_shape:
  "convert im m = Inr im' \<Longrightarrow>
   im_mode im' = m \<and> im_width im' = im_width im \<and> im_height im' = im_height im"
  by (auto simp: convert_def convert_transparent_def split: if_splits option.splits)

lemma convert_wf:
  assumes "wf_image im" and "convert im m = Inr im'"
  shows "wf_image im'"
proof (cases "m = im_mode im")
  case True
  with assms show ?thesis by (simp add: convert_def)
next
  case False
  with assms(2) obtain f where f: "convert_pixel (im_mode im) m = Some f"
    by (auto simp: convert_def split: option.splits)
  have bands: "length (f p) = bands m" if "p \<in> set (im_pixels im)" for p
    using assms(1) that convert_pixel_bands [OF f] by (auto simp: wf_image_def list_all_iff)
  have key: "length (f k) = bands m" if "im_transparency im = Some k" for k
    using assms(1) that convert_pixel_bands [OF f] by (auto simp: wf_image_def)
  have "length (butlast (f p) @ [0]) = bands m" if "p \<in> set (im_pixels im)" for p
    using bands [OF that] bands_pos [of m] by simp
  with assms f False bands key show ?thesis
    by (auto simp: convert_def convert_transparent_def wf_image_def list_all_iff
             split: option.splits if_splits)
qed

lemma convert_exists:
  "convert_pixel (im_mode im) m = Some f \<Longrightarrow> \<exists>im'. convert im m = Inr im'"
  by (auto simp: convert_def split: option.splits)

lemma convert_straight:
  assumes "straight (im_mode im)" and "straight m"
  shows "\<exists>im'. convert im m = Inr im'"
proof (cases "m = im_mode im")
  case True
  then show ?thesis by (simp add: convert_def)
next
  case False
  with assms obtain f where "convert_pixel (im_mode im) m = Some f"
    using convert_pixel_straight by blast
  then show ?thesis by (rule convert_exists)
qed

lemma convert_premultiplied:
  "m \<in> {LA, RGBA} \<Longrightarrow>
   (\<exists>f. convert_pixel m (premultiplied m) = Some f) \<and> (\<exists>g. convert_pixel (premultiplied m) m = Some g)"
  by auto

text \<open>
  A successful conversion is well-formed and keeps the size; the lemmas above give it
  for every pair of straight modes.
\<close>
lemma convert_sized:
  assumes "wf_image im" and "convert im m = Inr im'"
  shows "sized m (im_width im) (im_height im) im'"
  using convert_wf [OF assms] convert_shape [OF assms(2)] by (simp add: sized_def)

section \<open>Image.resize\<close>

lemma nearest_index_less:
  assumes "0 < n_in" and "x < n_out"
  shows "nearest_index n_in n_out x < n_in"
proof -
  from assms(2) have "2 * x + 1 < 2 * n_out" by simp
  then have "(2 * x + 1) * n_in < 2 * n_out * n_in" using assms(1) by (rule mult_less_mono1)
  then have "(2 * x + 1) * n_in < n_in * (2 * n_out)" by (simp add: mult.commute)
  with assms show ?thesis by (simp add: nearest_index_def div_less_iff_less_mult)
qed

lemma grid_index_less:
  "(y :: nat) < h \<Longrightarrow> x < w \<Longrightarrow> y * w + x < w * h"
proof -
  assume "y < h" and "x < w"
  then have "y * w + x < (y + 1) * w" by simp
  also from \<open>y < h\<close> have "\<dots> \<le> h * w" by (intro mult_right_mono) simp_all
  finally show ?thesis by (simp add: mult.commute)
qed

lemma nearest_pixels_length [simp]: "length (nearest_pixels w h im) = w * h"
  by (simp add: nearest_pixels_def length_concat comp_def sum_list_triv)

lemma nearest_pixels_from_source:
  assumes "wf_image im" and "p \<in> set (nearest_pixels w h im)"
  shows "p \<in> set (im_pixels im)"
proof -
  from assms(2) obtain x y where xy: "x < w" "y < h"
    and p: "p = im_pixels im ! (nearest_index (im_height im) h y * im_width im
                                 + nearest_index (im_width im) w x)"
    by (auto simp: nearest_pixels_def)
  from assms(1) xy have "nearest_index (im_height im) h y < im_height im"
    and "nearest_index (im_width im) w x < im_width im"
    by (simp_all add: wf_image_def nearest_index_less)
  then have "nearest_index (im_height im) h y * im_width im + nearest_index (im_width im) w x
             < length (im_pixels im)"
    using assms(1) grid_index_less by (simp add: wf_image_def)
  with p show ?thesis by simp
qed

lemma nearest_pixels_bands:
  assumes "wf_image im"
  shows "list_all (\<lambda>p. length p = bands (im_mode im)) (nearest_pixels w h im)"
proof -
  have "length p = bands (im_mode im)" if "p \<in> set (nearest_pixels w h im)" for p
  proof -
    from assms that have "p \<in> set (im_pixels im)" by (rule nearest_pixels_from_source)
    with assms show ?thesis by (simp add: wf_image_def list_all_iff)
  qed
  then show ?thesis by (simp add: list_all_iff)
qed

lemma resampler_ok_nearest: "resampler_ok (\<lambda>f. nearest_pixels)"
  by (simp add: resampler_ok_def nearest_pixels_bands)

lemma resize_core_ok:
  assumes "resampler_ok rs" and "wf_image im" and "0 < w" and "0 < h"
  shows "\<exists>im'. resize_core rs f w h im = Inr im' \<and> sized (im_mode im) w h im' \<and>
                im_transparency im' = im_transparency im"
proof -
  let ?px = "if im_width im = w \<and> im_height im = h then im_pixels im
             else if f = NEAREST then nearest_pixels w h im else rs f w h im"
  have "length ?px = w * h \<and> list_all (\<lambda>p. length p = bands (im_mode im)) ?px"
    using assms resampler_ok_nearest unfolding resampler_ok_def
    by (auto simp: wf_image_def)
  with assms(2-4) show ?thesis
    by (auto simp: resize_core_def sized_def wf_image_def split: option.splits)
qed

section \<open>Main properties of the image layer\<close>

text \<open>
  \<open>MULDIV255\<close> is exactly the product of two bytes divided by 255 and
  rounded to nearest.
\<close>
theorem muldiv255_rounds:
  "unat (muldiv255 a b) = (unat a * unat b + 127) div 255"
proof -
  have "unat a * unat b \<le> 255 * 255"
    by (intro mult_le_mono unat_byte_le)
  then have eq: "((unat a * unat b + 128) div 256 + (unat a * unat b + 128)) div 256
                 = (unat a * unat b + 127) div 255"
    by (intro muldiv_nat) simp
  from \<open>unat a * unat b \<le> 255 * 255\<close> have "(unat a * unat b + 127) div 255 < 256"
    by simp
  then show ?thesis
    by (simp add: muldiv255_def Let_def eq unat_of_nat_byte)
qed

lemma muldiv255_opaque [simp]: "muldiv255 c 255 = c"
proof -
  have "unat (muldiv255 c 255) = unat c"
    by (simp add: muldiv255_rounds)
  then show ?thesis by (rule word_unat_eq_iff [THEN iffD2])
qed

lemma unpremul_opaque [simp]: "unpremul c 255 = c"
  by (simp add: unpremul_def)

lemma premultiply_roundtrip_pixel:
  "length p = 4 \<Longrightarrow> p ! 3 = 255 \<Longrightarrow>
   the (convert_pixel RGBa RGBA) (the (convert_pixel RGBA RGBa) p) = p"
  by (simp add: nth_equal_first_eq list_eq_iff_nth_eq less_Suc_eq numeral_eq_Suc)

text \<open>
  Converting to \<open>RGBA\<close> keeps the transparency of every pixel: the alpha band of the
  result is the alpha the source pixel stands for.
\<close>
theorem convert_rgba_alpha:
  assumes "wf_image im" and "convert im RGBA = Inr im'"
  shows "map (\<lambda>p. p ! 3) (im_pixels im') = map (alpha_of im) (im_pixels im)"
proof (cases "im_mode im")
  case L
  with assms show ?thesis
    by (auto simp: convert_def convert_transparent_def alpha_of_def nth_append
             split: option.splits if_splits)
next
  case LA
  with assms show ?thesis
    by (auto simp: convert_def alpha_of_def split: option.splits)
next
  case La
  with assms show ?thesis by (simp add: convert_def)
next
  case RGB
  with assms show ?thesis
    by (auto simp: convert_def convert_transparent_def alpha_of_def nth_append
             split: option.splits if_splits)
next
  case RGBA
  with assms show ?thesis by (simp add: convert_def alpha_of_def)
next
  case RGBa
  with assms show ?thesis
    by (auto simp: convert_def alpha_of_def split: option.splits)
qed

text \<open>
  \<open>Image.resize\<close> of a well-formed straight image to a positive size returns an image
  of exactly that size and of the same mode, whatever the source's aspect ratio, for
  every resampling kernel that meets its contract.
\<close>
theorem resize_exact:
  assumes rs: "resampler_ok rs" and wf: "wf_image im" and st: "straight (im_mode im)"
    and pos: "0 < w" "0 < h"
  shows "\<exists>im'. resize rs im (w, h) f = Inr im' \<and> sized (im_mode im) w h im'"
proof (cases "im_width im = w \<and> im_height im = h")
  case True
  with wf show ?thesis by (simp add: resize_def sized_def)
next
  case False
  show ?thesis
  proof (cases "im_mode im \<in> {LA, RGBA} \<and> f \<noteq> NEAREST")
    case True
    let ?m = "im_mode im"
    from True obtain pf g where pf: "convert_pixel ?m (premultiplied ?m) = Some pf"
      and g: "convert_pixel (premultiplied ?m) ?m = Some g"
      using convert_premultiplied by blast
    from pf obtain im1 where im1: "convert im (premultiplied ?m) = Inr im1"
      using convert_exists by blast
    with wf have s1: "sized (premultiplied ?m) (im_width im) (im_height im) im1"
      by (rule convert_sized)
    from rs s1 pos obtain im2 where im2: "resize_core rs f w h im1 = Inr im2"
      and s2: "sized (premultiplied ?m) w h im2"
      using resize_core_ok [of rs im1 w h f] by (auto simp: sized_def)
    from g s2 obtain im3 where im3: "convert im2 ?m = Inr im3"
      using convert_exists [of im2 ?m g] by (auto simp: sized_def)
    from s2 im3 have "sized ?m w h im3"
      using convert_sized [of im2 ?m im3] by (simp add: sized_def)
    moreover from False True im1 im2 im3 have "resize rs im (w, h) f = Inr im3"
      by (auto simp: resize_def)
    ultimately show ?thesis by blast
  next
    case nonpremul: False
    from rs wf pos obtain im' where core: "resize_core rs f w h im = Inr im'"
      and "sized (im_mode im) w h im'"
      using resize_core_ok by blast
    moreover from False nonpremul core have "resize rs im (w, h) f = Inr im'"
      by (auto simp: resize_def)
    ultimately show ?thesis by blast
  qed
qed

text \<open>Every image \<open>Image.resize\<close> returns is well-formed, whatever its mode.\<close>
end
