(* ===== verification/OS_World.thy ===== *)
theory OS_World
  imports Prelude
begin

text \<open>
  The part of the operating system and of Python's \<open>os\<close> module that the script uses:
  a file system of directories and files, the current directory, a list of paths whose
  write permission is denied, standard output, and the trace of the file-system calls
  made. The calls are \<open>mkdir\<close>, \<open>os.makedirs\<close>, writing a file (\<open>open(p, 'w+b')\<close>),
  reading one (\<open>open(p, 'rb')\<close>), \<open>os.chdir\<close>, \<open>os.path.exists\<close>,
  \<open>os.path.isdir\<close> and \<open>print\<close>. The contents of files are a type parameter: the
  image layer fixes it.
\<close>

datatype 'c node = Dir | File 'c

datatype os_event = Ev_mkdir path | Ev_write path | Ev_chdir path

record 'c world =
  fs :: "(path \<times> 'c node) list"
  cwd :: path
  readonly :: "path list"
  stdout :: "string list"
  events :: "os_event list"

abbreviation node_at :: "'c world \<Rightarrow> path \<Rightarrow> 'c node option" where
  "node_at w p \<equiv> map_of (fs w) p"

section \<open>Path lookup\<close>

text \<open>
  The kernel's walk along a path: every prefix of it, the root first, must be a
  directory. The first prefix that is not gives \<open>ENOENT\<close> when it is missing and
  \<open>ENOTDIR\<close> when it is a file.
\<close>
definition walk_error :: "'c world \<Rightarrow> path \<Rightarrow> py_error option" where
  "walk_error w p =
     (case find (\<lambda>q. node_at w q \<noteq> Some Dir) (prefixes p) of
        None \<Rightarrow> None
      | Some q \<Rightarrow> Some (if node_at w q = None then FileNotFoundError else NotADirectoryError))"

text \<open>\<open>os.path.exists\<close>: \<open>stat\<close> succeeds.\<close>
definition path_exists :: "'c world \<Rightarrow> path \<Rightarrow> bool" where
  "path_exists w p \<longleftrightarrow> walk_error w (butlast p) = None \<and> node_at w p \<noteq> None"

text \<open>\<open>os.path.isdir\<close>: \<open>stat\<close> succeeds and finds a directory.\<close>
definition path_isdir :: "'c world \<Rightarrow> path \<Rightarrow> bool" where
  "path_isdir w p \<longleftrightarrow> walk_error w (butlast p) = None \<and> node_at w p = Some Dir"

section \<open>System calls\<close>

text \<open>
  \<open>mkdir(2)\<close>: the parent is walked first, then an existing entry gives \<open>EEXIST\<close>, then
  the parent's write permission is checked.
\<close>
definition mkdir :: "path \<Rightarrow> ('c world, unit) io" where
  "mkdir p = (\<lambda>w.
     if p = [] then raise FileExistsError w
     else case walk_error w (butlast p) of
       Some e \<Rightarrow> raise e w
     | None \<Rightarrow>
         if node_at w p \<noteq> None then raise FileExistsError w
         else if butlast p \<in> set (readonly w) then raise PermissionError w
         else ret () (w\<lparr>fs := AList.update p Dir (fs w), events := events w @ [Ev_mkdir p]\<rparr>))"

text \<open>
  \<open>open(p, 'w+b')\<close> followed by a write of the whole content: the parent is walked, a
  directory gives \<open>EISDIR\<close>, an existing file is truncated when it is writable, a new
  file is created when its directory is writable.
\<close>
definition write_file :: "path \<Rightarrow> 'c \<Rightarrow> ('c world, unit) io" where
  "write_file p c = (\<lambda>w.
     if p = [] then raise IsADirectoryError w
     else case walk_error w (butlast p) of
       Some e \<Rightarrow> raise e w
     | None \<Rightarrow>
         (case node_at w p of
            Some Dir \<Rightarrow> raise IsADirectoryError w
          | Some (File _) \<Rightarrow>
              if p \<in> set (readonly w) then raise PermissionError w
              else ret () (w\<lparr>fs := AList.update p (File c) (fs w), events := events w @ [Ev_write p]\<rparr>)
          | None \<Rightarrow>
              if butlast p \<in> set (readonly w) then raise PermissionError w
              else ret () (w\<lparr>fs := AList.update p (File c) (fs w), events := events w @ [Ev_write p]\<rparr>)))"

text \<open>\<open>open(p, 'rb').read()\<close>.\<close>
definition read_file :: "path \<Rightarrow> ('c world, 'c) io" where
  "read_file p = (\<lambda>w.
     case walk_error w (butlast p) of
       Some e \<Rightarrow> raise e w
     | None \<Rightarrow>
         (case node_at w p of
            None \<Rightarrow> raise FileNotFoundError w
          | Some Dir \<Rightarrow> raise IsADirectoryError w
          | Some (File c) \<Rightarrow> ret c w))"

text \<open>\<open>os.chdir\<close>: the whole path must walk through directories.\<close>
definition chdir :: "path \<Rightarrow> ('c world, unit) io" where
  "chdir p = (\<lambda>w.
     case walk_error w p of
       Some e \<Rightarrow> raise e w
     | None \<Rightarrow> ret () (w\<lparr>cwd := p, events := events w @ [Ev_chdir p]\<rparr>))"

text \<open>\<open>print(s)\<close>: one line on standard output.\<close>
definition print :: "string \<Rightarrow> ('c world, unit) io" where
  "print s = modify (\<lambda>w. w\<lparr>stdout := stdout w @ [s]\<rparr>)"

text \<open>
  \<open>os.makedirs(name, exist_ok)\<close> of CPython's \<open>os.py\<close>, on the components \<open>cs\<close> of
  \<open>name\<close> below the directory \<open>base\<close> it is resolved against:
  \<^verbatim>\<open>
    head, tail = path.split(name)
    if head and tail and not path.exists(head):
        try: makedirs(head, exist_ok=exist_ok)
        except FileExistsError: pass
    try: mkdir(name, mode)
    except OSError:
        if not exist_ok or not path.isdir(name): raise
  \<close>
  The recursion is on the parent, a shorter path; an empty name is \<open>mkdir('')\<close>, which
  raises \<open>FileNotFoundError\<close>.
\<close>
function makedirs :: "bool \<Rightarrow> path \<Rightarrow> string list \<Rightarrow> ('c world, unit) io" where
  "makedirs exist_ok base cs =
     (if cs = [] then raise FileNotFoundError
      else bind_io
        (\<lambda>w. if butlast cs \<noteq> [] \<and> \<not> path_exists w (base @ butlast cs)
             then catch (makedirs exist_ok base (butlast cs))
                    (\<lambda>e. if e = FileExistsError then ret () else raise e) w
             else ret () w)
        (\<lambda>_. catch (mkdir (base @ cs))
               (\<lambda>e w. if \<not> exist_ok \<or> \<not> path_isdir w (base @ cs) then raise e w else ret () w)))"
  by pat_completeness auto
termination
  by (relation "measure (\<lambda>(_, _, cs). length cs)") auto

declare makedirs.simps [simp del]

text \<open>
  A call on a path string: the string is resolved against the current directory at the
  moment of the call, as the kernel does for a relative path.
\<close>
definition at_path :: "string \<Rightarrow> (path \<Rightarrow> ('c world, 'a) io) \<Rightarrow> ('c world, 'a) io" where
  "at_path s f = (\<lambda>w. f (resolve (cwd w) s) w)"

text \<open>\<open>os.makedirs(name, exist_ok=...)\<close> on a path string.\<close>
definition os_makedirs :: "string \<Rightarrow> bool \<Rightarrow> ('c world, unit) io" where
  "os_makedirs name exist_ok =
     (\<lambda>w. makedirs exist_ok (if take 1 name = ''/'' then [] else cwd w) (path_components name) w)"

text \<open>\<open>os.path.exists(name)\<close> on a path string, as a query that cannot fail.\<close>
definition os_path_exists :: "string \<Rightarrow> ('c world, bool) io" where
  "os_path_exists name = (\<lambda>w. ret (path_exists w (resolve (cwd w) name)) w)"

section \<open>Well-formed worlds\<close>

text \<open>
  The root is a directory, the parent of every entry is a directory, and the current
  directory is a directory. Every call keeps this.
\<close>
definition fs_ok :: "(path \<times> 'c node) list \<Rightarrow> bool" where
  "fs_ok t \<longleftrightarrow> map_of t [] = Some Dir \<and>
     list_all (\<lambda>(p, n). p \<noteq> [] \<longrightarrow> map_of t (butlast p) = Some Dir) t"

definition wf_world :: "'c world \<Rightarrow> bool" where
  "wf_world w \<longleftrightarrow> fs_ok (fs w) \<and> node_at w (cwd w) = Some Dir"

text \<open>Writing \<open>p\<close> succeeds: no directory is there, and the file or its directory is writable.\<close>
definition file_writable :: "'c world \<Rightarrow> path \<Rightarrow> bool" where
  "file_writable w p \<longleftrightarrow>
     (case node_at w p of
        None \<Rightarrow> butlast p \<notin> set (readonly w)
      | Some Dir \<Rightarrow> False
      | Some (File _) \<Rightarrow> p \<notin> set (readonly w))"

text \<open>\<open>p\<close> is a directory already, or can be made one.\<close>
definition dir_creatable :: "'c world \<Rightarrow> path \<Rightarrow> bool" where
  "dir_creatable w p \<longleftrightarrow>
     (case node_at w p of
        None \<Rightarrow> butlast p \<notin> set (readonly w)
      | Some Dir \<Rightarrow> True
      | Some (File _) \<Rightarrow> False)"

text \<open>The world after \<open>p\<close> is made a directory if it is not one.\<close>
definition ensure_dir :: "'c world \<Rightarrow> path \<Rightarrow> 'c world" where
  "ensure_dir w p =
     (if node_at w p = Some Dir then w
      else w\<lparr>fs := AList.update p Dir (fs w), events := events w @ [Ev_mkdir p]\<rparr>)"

text \<open>Every directory along \<open>cs\<close> below \<open>base\<close> ensured, the outermost first.\<close>
definition ensure_dirs :: "'c world \<Rightarrow> path \<Rightarrow> string list \<Rightarrow> 'c world" where
  "ensure_dirs w base cs = fold (\<lambda>q w. ensure_dir w (base @ q)) (tl (prefixes cs)) w"

text \<open>The world after writing \<open>c\<close> to \<open>p\<close>.\<close>
definition written :: "'c world \<Rightarrow> path \<Rightarrow> 'c \<Rightarrow> 'c world" where
  "written w p c = w\<lparr>fs := AList.update p (File c) (fs w), events := events w @ [Ev_write p]\<rparr>"

section \<open>Lookup in well-formed file systems\<close>

lemma set_update_subset: "set (AList.update k v al) \<subseteq> insert (k, v) (set al)"
  by (induction al) auto

lemma fs_ok_parent:
  assumes "fs_ok t" and "map_of t p = Some n" and "p \<noteq> []"
  shows "map_of t (butlast p) = Some Dir"
proof -
  from assms(2) have "(p, n) \<in> set t" by (rule map_of_SomeD)
  with assms(1) have "case (p, n) of (p, n) \<Rightarrow> p \<noteq> [] \<longrightarrow> map_of t (butlast p) = Some Dir"
    unfolding fs_ok_def list_all_iff by blast
  with assms(3) show ?thesis by simp
qed

lemma fs_ok_strict_prefix:
  assumes "fs_ok t" and "map_of t p \<noteq> None" and "strict_prefix q p"
  shows "map_of t q = Some Dir"
  using assms(2,3)
proof (induction p rule: rev_induct)
  case Nil
  then show ?case by simp
next
  case (snoc x p)
  from snoc.prems(1) assms(1) have dir: "map_of t p = Some Dir"
    using fs_ok_parent [of t "p @ [x]"] by auto
  from snoc.prems(2) have "q = p \<or> strict_prefix q p"
    by (auto simp: strict_prefix_def)
  with dir snoc.IH show ?case by auto
qed

text \<open>In a well-formed file system the walk fails exactly where there is no directory.\<close>

lemma walk_error_None_iff:
  assumes "fs_ok (fs w)"
  shows "walk_error w p = None \<longleftrightarrow> node_at w p = Some Dir"
proof
  assume "walk_error w p = None"
  then have "\<forall>q\<in>set (prefixes p). node_at w q = Some Dir"
    by (auto simp: walk_error_def find_None_iff split: option.splits)
  then show "node_at w p = Some Dir" by auto
next
  assume p: "node_at w p = Some Dir"
  have "node_at w q = Some Dir" if "prefix q p" for q
  proof (cases "q = p")
    case True
    with p show ?thesis by simp
  next
    case False
    with \<open>prefix q p\<close> have "strict_prefix q p" by (simp add: strict_prefix_def)
    with assms p show ?thesis using fs_ok_strict_prefix by fastforce
  qed
  then have "find (\<lambda>q. node_at w q \<noteq> Some Dir) (prefixes p) = None"
    by (simp add: find_None_iff)
  then show "walk_error w p = None"
    by (simp add: walk_error_def)
qed

lemma walk_error_wf [simp]:
  "wf_world w \<Longrightarrow> walk_error w p = None \<longleftrightarrow> node_at w p = Some Dir"
  using walk_error_None_iff [of w p] by (simp add: wf_world_def)

lemma walk_error_Dir [simp]:
  "wf_world w \<Longrightarrow> node_at w p = Some Dir \<Longrightarrow> walk_error w p = None"
  by simp

lemma walk_parent_wf:
  assumes "wf_world w"
  shows "walk_error w (butlast p) = None \<longleftrightarrow> node_at w (butlast p) = Some Dir"
  using assms by simp

lemma parent_of_entry_wf:
  assumes "wf_world w" and "node_at w p = Some n"
  shows "node_at w (butlast p) = Some Dir"
proof (cases "p = []")
  case True
  with assms(1) show ?thesis by (simp add: wf_world_def fs_ok_def)
next
  case False
  with assms show ?thesis unfolding wf_world_def by (blast intro: fs_ok_parent)
qed

text \<open>Walking through a file fails with \<open>ENOTDIR\<close>.\<close>
lemma walk_error_file:
  assumes wf: "wf_world w" and f: "node_at w p = Some (File c)"
  shows "walk_error w p = Some NotADirectoryError"
proof -
  from wf have ok: "fs_ok (fs w)" by (simp add: wf_world_def)
  from wf f have "p \<noteq> []" by (auto simp: wf_world_def fs_ok_def)
  then obtain ys y where p: "p = ys @ [y]" by (cases p rule: rev_cases) auto
  have "node_at w q = Some Dir" if "q \<in> set (prefixes ys)" for q
  proof -
    from that p have "strict_prefix q p" by (auto simp: strict_prefix_def)
    with ok f show ?thesis by (intro fs_ok_strict_prefix) simp_all
  qed
  then have "find (\<lambda>q. node_at w q \<noteq> Some Dir) (prefixes ys) = None"
    by (simp add: find_None_iff)
  with f p show ?thesis by (simp add: walk_error_def find_append_None)
qed

lemma path_exists_wf [simp]:
  assumes "wf_world w"
  shows "path_exists w p \<longleftrightarrow> node_at w p \<noteq> None"
proof
  assume "path_exists w p"
  then show "node_at w p \<noteq> None" by (simp add: path_exists_def)
next
  assume "node_at w p \<noteq> None"
  then obtain n where n: "node_at w p = Some n" by blast
  then have "node_at w (butlast p) = Some Dir" by (rule parent_of_entry_wf [OF assms])
  with assms n show "path_exists w p" by (simp add: path_exists_def)
qed

lemma path_isdir_wf [simp]:
  assumes "wf_world w"
  shows "path_isdir w p \<longleftrightarrow> node_at w p = Some Dir"
proof
  assume "path_isdir w p"
  then show "node_at w p = Some Dir" by (simp add: path_isdir_def)
next
  assume n: "node_at w p = Some Dir"
  then have "node_at w (butlast p) = Some Dir" by (rule parent_of_entry_wf [OF assms])
  with assms n show "path_isdir w p" by (simp add: path_isdir_def)
qed

section \<open>Every call keeps the world well-formed\<close>

lemma fs_ok_update:
  assumes "fs_ok t" and "p \<noteq> []" and "map_of t (butlast p) = Some Dir"
    and "map_of t p = Some Dir \<longrightarrow> n = Dir"
  shows "fs_ok (AList.update p n t)"
proof -
  let ?t = "AList.update p n t"
  have keep: "map_of ?t q = Some Dir" if "map_of t q = Some Dir" for q
    using that assms(4) unfolding update_conv' by (cases "q = p") simp_all
  have parent: "map_of ?t (butlast q) = Some Dir" if "(q, m) \<in> set ?t" and "q \<noteq> []" for q m
  proof -
    from that(1) set_update_subset [of p n t] have "(q, m) = (p, n) \<or> (q, m) \<in> set t" by blast
    then show ?thesis
    proof
      assume "(q, m) = (p, n)"
      with assms(3) keep show ?thesis by simp
    next
      assume "(q, m) \<in> set t"
      then obtain m' where "map_of t q = Some m'" by (blast dest: weak_map_of_SomeI)
      with assms(1) have "map_of t (butlast q) = Some Dir"
        using that(2) by (rule fs_ok_parent)
      then show ?thesis by (rule keep)
    qed
  qed
  have root: "map_of ?t [] = Some Dir"
    using assms(1) by (intro keep) (simp add: fs_ok_def)
  have "list_all (\<lambda>(q, m). q \<noteq> [] \<longrightarrow> map_of ?t (butlast q) = Some Dir) ?t"
    unfolding list_all_iff using parent by blast
  with root show ?thesis by (simp only: fs_ok_def simp_thms)
qed

lemma wf_world_update:
  assumes "wf_world w" and "p \<noteq> []" and "node_at w (butlast p) = Some Dir"
    and "node_at w p = Some Dir \<longrightarrow> n = Dir"
  shows "wf_world (w\<lparr>fs := AList.update p n (fs w), events := E\<rparr>)"
proof -
  from assms have "fs_ok (AList.update p n (fs w))"
    by (intro fs_ok_update) (simp_all add: wf_world_def)
  moreover from assms have "map_of (AList.update p n (fs w)) (cwd w) = Some Dir"
    by (cases "cwd w = p") (simp_all add: wf_world_def update_conv')
  ultimately show ?thesis by (simp add: wf_world_def)
qed

lemma mkdir_wf [io_inv_intros]: "io_inv wf_world (mkdir p)"
  unfolding io_inv_def mkdir_def
  by (auto simp: io_simps wf_world_update split: option.splits)

lemma write_file_wf [io_inv_intros]: "io_inv wf_world (write_file p c)"
  unfolding io_inv_def write_file_def
  by (auto simp: io_simps wf_world_update split: option.splits node.splits)

lemma read_file_wf [io_inv_intros]: "io_inv wf_world (read_file p)"
  unfolding io_inv_def read_file_def
  by (auto simp: io_simps split: option.splits node.splits)

lemma chdir_wf [io_inv_intros]: "io_inv wf_world (chdir p)"
  unfolding io_inv_def chdir_def
  by (auto simp: io_simps wf_world_def walk_error_None_iff split: option.splits)

lemma print_wf [io_inv_intros]: "io_inv wf_world (print s)"
  unfolding print_def by (rule io_inv_modify) (simp add: wf_world_def)

lemma at_path_inv [io_inv_intros]:
  "(\<And>p. io_inv P (f p)) \<Longrightarrow> io_inv P (at_path s f)"
  unfolding io_inv_def at_path_def by blast

text \<open>\<open>makedirs\<close> keeps every invariant that \<open>mkdir\<close> keeps.\<close>
lemma makedirs_inv:
  fixes P :: "'c world \<Rightarrow> bool"
  assumes mk: "\<And>p. io_inv P (mkdir p)"
  shows "io_inv P (makedirs ok base cs)"
proof (induction ok base cs rule: makedirs.induct)
  fix ok base and cs :: "string list"
  assume IH: "\<And>w :: 'c world. cs \<noteq> [] \<Longrightarrow>
      butlast cs \<noteq> [] \<and> \<not> path_exists w (base @ butlast cs) \<Longrightarrow>
      io_inv P (makedirs ok base (butlast cs) :: ('c world, unit) io)"
  show "io_inv P (makedirs ok base cs :: ('c world, unit) io)"
    by (subst makedirs.simps) (intro io_inv_intros IH mk, auto)
qed

lemma os_makedirs_inv:
  "(\<And>p. io_inv P (mkdir p)) \<Longrightarrow> io_inv P (os_makedirs name ok)"
  using makedirs_inv unfolding io_inv_def os_makedirs_def by blast

lemma makedirs_wf [io_inv_intros]: "io_inv wf_world (makedirs ok base cs)"
  using mkdir_wf by (rule makedirs_inv)

lemma os_makedirs_wf [io_inv_intros]: "io_inv wf_world (os_makedirs name ok)"
  using mkdir_wf by (rule os_makedirs_inv)

lemma os_path_exists_wf [io_inv_intros]: "io_inv wf_world (os_path_exists name)"
  by (simp add: io_inv_def os_path_exists_def io_simps)

section \<open>The calls, case by case\<close>

lemma chdir_dir:
  "wf_world w \<Longrightarrow> node_at w p = Some Dir \<Longrightarrow>
   chdir p w = (Inr (), w\<lparr>cwd := p, events := events w @ [Ev_chdir p]\<rparr>)"
  by (simp add: chdir_def io_simps)

lemma mkdir_new:
  "wf_world w \<Longrightarrow> p \<noteq> [] \<Longrightarrow> node_at w (butlast p) = Some Dir \<Longrightarrow> node_at w p = None \<Longrightarrow>
   butlast p \<notin> set (readonly w) \<Longrightarrow>
   mkdir p w = (Inr (), w\<lparr>fs := AList.update p Dir (fs w), events := events w @ [Ev_mkdir p]\<rparr>)"
  by (simp add: mkdir_def io_simps)

lemma mkdir_existing:
  assumes "wf_world w" and "p \<noteq> []" and "node_at w p = Some n"
  shows "mkdir p w = (Inl FileExistsError, w)"
proof -
  from assms(1,3) have "node_at w (butlast p) = Some Dir" by (rule parent_of_entry_wf)
  with assms show ?thesis by (simp add: mkdir_def io_simps)
qed

lemma write_file_ok:
  "wf_world w \<Longrightarrow> p \<noteq> [] \<Longrightarrow> node_at w (butlast p) = Some Dir \<Longrightarrow> file_writable w p \<Longrightarrow>
   write_file p c w = (Inr (), written w p c)"
  by (auto simp: write_file_def file_writable_def written_def io_simps split: option.splits node.splits)

lemma write_file_dir:
  assumes "wf_world w" and "p \<noteq> []" and "node_at w p = Some Dir"
  shows "write_file p c w = (Inl IsADirectoryError, w)"
proof -
  from assms(1,3) have "node_at w (butlast p) = Some Dir" by (rule parent_of_entry_wf)
  with assms show ?thesis by (simp add: write_file_def io_simps)
qed

lemma read_file_ok:
  assumes "wf_world w" and "node_at w p = Some (File c)"
  shows "read_file p w = (Inr c, w)"
proof -
  from assms have "node_at w (butlast p) = Some Dir" by (rule parent_of_entry_wf)
  with assms show ?thesis by (simp add: read_file_def io_simps)
qed

lemma read_file_missing:
  "wf_world w \<Longrightarrow> node_at w (butlast p) = Some Dir \<Longrightarrow> node_at w p = None \<Longrightarrow>
   read_file p w = (Inl FileNotFoundError, w)"
  by (simp add: read_file_def io_simps)

lemma print_apply: "print s w = (Inr (), w\<lparr>stdout := stdout w @ [s]\<rparr>)"
  by (simp add: print_def io_simps)

lemma written_fields [simp]:
  "readonly (written w p c) = readonly w" "cwd (written w p c) = cwd w"
  "stdout (written w p c) = stdout w" "events (written w p c) = events w @ [Ev_write p]"
  by (simp_all add: written_def)

lemma fs_written: "fs (written w p c) = AList.update p (File c) (fs w)"
  by (simp add: written_def)

lemma node_at_written [simp]:
  "node_at (written w p c) q = (if q = p then Some (File c) else node_at w q)"
  by (simp add: written_def update_conv')

lemma written_wf:
  assumes "wf_world w" and "p \<noteq> []" and "node_at w (butlast p) = Some Dir"
    and "node_at w p \<noteq> Some Dir"
  shows "wf_world (written w p c)"
  using wf_world_update [OF assms(1-3)] assms(4) by (simp add: written_def)

lemma wf_world_stdout [simp]: "wf_world (w\<lparr>stdout := x\<rparr>) = wf_world w"
  by (simp add: wf_world_def)

lemma written_stdout: "written (w\<lparr>stdout := x\<rparr>) p c = (written w p c)\<lparr>stdout := x\<rparr>"
  by (simp add: written_def)

lemma file_writable_stdout [simp]: "file_writable (w\<lparr>stdout := x\<rparr>) q = file_writable w q"
  by (simp add: file_writable_def split: option.splits node.splits)

lemma file_writable_intro:
  "node_at w p \<noteq> Some Dir \<Longrightarrow> p \<notin> set (readonly w) \<Longrightarrow> butlast p \<notin> set (readonly w) \<Longrightarrow>
   file_writable w p"
  by (auto simp: file_writable_def split: option.splits node.splits)

lemma at_path_apply: "at_path s f w = f (resolve (cwd w) s) w"
  by (simp add: at_path_def)

lemma os_path_exists_apply: "os_path_exists s w = (Inr (path_exists w (resolve (cwd w) s)), w)"
  by (simp add: os_path_exists_def io_simps)

section \<open>os.makedirs creates exactly the missing directories\<close>

lemma ensure_dir_fields [simp]:
  "readonly (ensure_dir w p) = readonly w" "cwd (ensure_dir w p) = cwd w"
  "stdout (ensure_dir w p) = stdout w"
  by (simp_all add: ensure_dir_def)

lemma node_at_ensure_dir [simp]:
  "node_at (ensure_dir w p) q = (if q = p then Some Dir else node_at w q)"
  by (simp add: ensure_dir_def update_conv')

lemma ensure_dir_wf:
  assumes "wf_world w" and "p \<noteq> []" and "node_at w (butlast p) = Some Dir"
  shows "wf_world (ensure_dir w p)"
  using assms wf_world_update [OF assms] by (simp add: ensure_dir_def)

lemma tl_prefixes_Cons: "tl (prefixes (x # xs)) = map ((#) x) (prefixes xs)"
  by simp

lemma set_tl_prefixes: "set (tl (prefixes xs)) = {r. prefix r xs \<and> r \<noteq> []}"
proof (cases xs)
  case Nil
  then show ?thesis by simp
next
  case (Cons x ys)
  then show ?thesis by (auto simp: prefix_Cons)
qed

lemma ensure_dirs_Nil [simp]: "ensure_dirs w base [] = w"
  by (simp add: ensure_dirs_def)

lemma ensure_dirs_snoc:
  "ensure_dirs w base (xs @ [x]) = ensure_dir (ensure_dirs w base xs) (base @ xs @ [x])"
proof -
  have "prefixes xs \<noteq> []" by (cases xs) simp_all
  then have "tl (prefixes (xs @ [x])) = tl (prefixes xs) @ [xs @ [x]]" by simp
  then show ?thesis by (simp add: ensure_dirs_def)
qed

lemma ensure_dirs_fields [simp]:
  "readonly (ensure_dirs w base xs) = readonly w" "cwd (ensure_dirs w base xs) = cwd w"
  "stdout (ensure_dirs w base xs) = stdout w"
  by (induction xs rule: rev_induct) (simp_all add: ensure_dirs_snoc)

lemma node_at_ensure_dirs:
  "node_at (ensure_dirs w base xs) q =
     (if \<exists>r. q = base @ r \<and> r \<noteq> [] \<and> prefix r xs then Some Dir else node_at w q)"
  by (induction xs rule: rev_induct) (auto simp: ensure_dirs_snoc)

lemma ensure_dirs_wf:
  assumes "wf_world w" and "node_at w base = Some Dir"
  shows "wf_world (ensure_dirs w base xs)"
proof (induction xs rule: rev_induct)
  case Nil
  from assms show ?case by simp
next
  case (snoc x xs)
  have "node_at (ensure_dirs w base xs) (base @ xs) = Some Dir"
    using assms(2) by (cases "xs = []") (auto simp: node_at_ensure_dirs)
  with snoc show ?case
    by (simp add: ensure_dirs_snoc ensure_dir_wf butlast_append)
qed

lemma ensure_dirs_existing:
  assumes "wf_world w" and "node_at w (base @ xs) = Some Dir"
  shows "ensure_dirs w base xs = w"
proof -
  have "ensure_dir w (base @ q) = w" if "q \<in> set (tl (prefixes xs))" for q
  proof -
    from that have "prefix q xs" by (simp add: set_tl_prefixes)
    then have "prefix (base @ q) (base @ xs)" by simp
    then have "node_at w (base @ q) = Some Dir"
      using assms fs_ok_strict_prefix [of "fs w" "base @ xs" "base @ q"]
      by (cases "q = xs") (auto simp: wf_world_def strict_prefix_def)
    then show ?thesis by (simp add: ensure_dir_def)
  qed
  then show ?thesis
    unfolding ensure_dirs_def by (rule fold_fixpoint)
qed

lemma events_ensure_dir:
  "events (ensure_dir w p) = events w \<or> events (ensure_dir w p) = events w @ [Ev_mkdir p]"
  by (simp add: ensure_dir_def)

lemma events_ensure_dirs:
  "\<exists>ms. events (ensure_dirs w base xs) = events w @ ms \<and>
        set ms \<subseteq> {Ev_mkdir (base @ q) | q. q \<noteq> [] \<and> prefix q xs}"
proof (induction xs rule: rev_induct)
  case (snoc x xs)
  then obtain ms where ms: "events (ensure_dirs w base xs) = events w @ ms"
    and sub: "set ms \<subseteq> {Ev_mkdir (base @ q) | q. q \<noteq> [] \<and> prefix q xs}" by blast
  have "prefix q xs \<Longrightarrow> prefix q (xs @ [x])" for q by (simp add: prefix_prefix)
  with sub have sub': "set ms \<subseteq> {Ev_mkdir (base @ q) | q. q \<noteq> [] \<and> prefix q (xs @ [x])}" by blast
  show ?case
    using events_ensure_dir [of "ensure_dirs w base xs" "base @ xs @ [x]"]
  proof
    assume "events (ensure_dir (ensure_dirs w base xs) (base @ xs @ [x])) = events (ensure_dirs w base xs)"
    with ms sub' show ?thesis by (auto simp: ensure_dirs_snoc)
  next
    assume "events (ensure_dir (ensure_dirs w base xs) (base @ xs @ [x])) =
              events (ensure_dirs w base xs) @ [Ev_mkdir (base @ xs @ [x])]"
    with ms sub' show ?thesis
      by (intro exI [of _ "ms @ [Ev_mkdir (base @ xs @ [x])]"]) (auto simp: ensure_dirs_snoc)
  qed
qed simp

theorem makedirs_ensure:
  assumes wf: "wf_world w" and base: "node_at w base = Some Dir"
  shows "cs \<noteq> [] \<Longrightarrow> \<forall>q\<in>set (tl (prefixes cs)). dir_creatable w (base @ q) \<Longrightarrow>
         makedirs True base cs w = (Inr (), ensure_dirs w base cs)"
proof (induction cs rule: rev_induct)
  case Nil
  then show ?case by simp
next
  case (snoc x xs)
  let ?p = "base @ xs @ [x]"
  let ?w1 = "ensure_dirs w base xs"
  have cr_last: "dir_creatable w ?p"
    using snoc.prems(2) by (simp add: set_tl_prefixes)
  have cr_xs: "\<forall>q\<in>set (tl (prefixes xs)). dir_creatable w (base @ q)"
    using snoc.prems(2) by (auto simp: set_tl_prefixes)
  have w1_wf: "wf_world ?w1" using wf base by (rule ensure_dirs_wf)
  have w1_parent: "node_at ?w1 (base @ xs) = Some Dir"
    using base by (cases "xs = []") (auto simp: node_at_ensure_dirs)
  have w1_p: "node_at ?w1 ?p = node_at w ?p"
    by (auto simp: node_at_ensure_dirs dest: prefix_length_le)
  have first: "(if xs \<noteq> [] \<and> \<not> path_exists w (base @ xs)
                then catch (makedirs True base (butlast (xs @ [x])))
                       (\<lambda>e. if e = FileExistsError then ret () else raise e) w
                else ret () w) = (Inr (), ?w1)"
  proof (cases "xs \<noteq> [] \<and> \<not> path_exists w (base @ xs)")
    case True
    with cr_xs have "makedirs True base xs w = (Inr (), ?w1)" by (intro snoc.IH) simp_all
    with True show ?thesis by (simp add: catch_apply)
  next
    case False
    show ?thesis
    proof (cases "xs = []")
      case True
      with False show ?thesis by (simp add: io_simps)
    next
      case nonempty: False
      with False wf have "node_at w (base @ xs) \<noteq> None" by simp
      moreover from nonempty cr_xs have "dir_creatable w (base @ xs)"
        by (simp add: set_tl_prefixes)
      ultimately have "node_at w (base @ xs) = Some Dir"
        by (auto simp: dir_creatable_def split: option.splits node.splits)
      with wf have "?w1 = w" by (rule ensure_dirs_existing)
      then show ?thesis by (subst if_not_P [OF False]) (simp add: io_simps)
    qed
  qed
  have second: "catch (mkdir ?p) (\<lambda>e w. if \<not> path_isdir w ?p then raise e w else ret () w) ?w1
                = (Inr (), ensure_dir ?w1 ?p)"
  proof (cases "node_at w ?p")
    case None
    with cr_last have "butlast ?p \<notin> set (readonly ?w1)"
      by (simp add: dir_creatable_def butlast_append)
    with None w1_wf w1_parent w1_p show ?thesis
      by (simp add: mkdir_new catch_apply ensure_dir_def butlast_append)
  next
    case (Some n)
    with cr_last have "n = Dir"
      by (auto simp: dir_creatable_def split: node.splits)
    with Some w1_wf w1_p have "mkdir ?p ?w1 = (Inl FileExistsError, ?w1)"
      by (intro mkdir_existing) simp_all
    with Some \<open>n = Dir\<close> w1_wf w1_p show ?thesis
      by (simp add: catch_apply io_simps ensure_dir_def)
  qed
  show ?case
    by (subst makedirs.simps) (simp add: bind_io_apply first second ensure_dirs_snoc split del: if_split)
qed

end
