(* ===== verification/Pillow_IO.thy ===== *)
theory Pillow_IO
  imports Pillow_Image OS_World
begin

text \<open>
  Image files: what Pillow's \<open>Image.open\<close> reads and what \<open>Image.save\<close> writes with
  the \<open>PNG\<close> and \<open>ICO\<close> encoders. A file holds an encoded value: a PNG image (lossless,
  so it holds the image itself), an ICO container (its list of frames), or other bytes.
  The ICO encoder is \<open>IcoImagePlugin._save\<close> with its default list of sizes: one frame
  for each size of that list that fits in the image, made by \<open>Image.thumbnail\<close>.
\<close>

datatype encoded = PNG_file image | ICO_file "image list" | Other_file "byte list"

type_synonym fsworld = "encoded world"

section \<open>Image.open\<close>

text \<open>
  \<open>IcoFile\<close> sorts its entries by colour depth and then by area, largest first, and
  opens the first entry. Both sorts are stable (\<open>reverse=True\<close> keeps the order of
  equal keys), so of the largest frames of one colour depth the first stored is opened.
  Frames written by the ICO encoder all have 32 bits per pixel, so this definition is the
  area sort alone.
\<close>
definition ico_largest :: "image list \<Rightarrow> image" where
  "ico_largest frames =
     fold (\<lambda>f best. if im_width best * im_height best < im_width f * im_height f then f else best)
          (tl frames) (hd frames)"

text \<open>
  Format detection and decoding: a PNG of a modelled mode, or an ICO with at least one
  frame, opens; anything else raises \<open>UnidentifiedImageError\<close>.
\<close>
fun decode :: "encoded \<Rightarrow> py_error + image" where
  "decode (PNG_file im) =
     (if wf_image im \<and> straight (im_mode im) then Inr im else Inl UnidentifiedImageError)"
| "decode (ICO_file frames) =
     (if frames \<noteq> [] \<and> list_all (\<lambda>f. wf_image f \<and> straight (im_mode f)) frames
      then Inr (ico_largest frames) else Inl UnidentifiedImageError)"
| "decode (Other_file bs) = Inl UnidentifiedImageError"

text \<open>\<open>Image.open(path)\<close> then the load that \<open>convert\<close> triggers.\<close>
definition image_open :: "path \<Rightarrow> (fsworld, image) io" where
  "image_open p = bind_io (read_file p) (\<lambda>c. lift (decode c))"

section \<open>Image.thumbnail\<close>

text \<open>
  \<open>round_aspect(number, key)\<close> of \<open>Image.thumbnail\<close>: of \<open>floor(number)\<close> and
  \<open>ceil(number)\<close> the one with the smaller key (the floor on a tie), and at least 1.
  The keys are compared as exact fractions; Pillow computes them in floating point.
\<close>
definition pick_aspect :: "nat \<Rightarrow> nat \<Rightarrow> bool \<Rightarrow> nat" where
  "pick_aspect a b ceil_closer = max (if ceil_closer then b else a) 1"

text \<open>
  \<open>preserve_aspect_ratio()\<close> for an image of size \<open>(w, h)\<close> and a requested size
  \<open>(x, y)\<close>: \<open>None\<close> when the image already fits; otherwise the side that binds is kept
  and the other is rounded to the nearer of its floor and ceiling.
\<close>
definition thumbnail_size :: "nat \<times> nat \<Rightarrow> nat \<times> nat \<Rightarrow> (nat \<times> nat) option" where
  "thumbnail_size wh xy =
     (case (wh, xy) of ((w, h), (x, y)) \<Rightarrow>
       if w \<le> x \<and> h \<le> y then None
       else if w * y \<le> x * h then
         (let a = (y * w) div h; b = (y * w + h - 1) div h
          in Some (pick_aspect a b
                     (\<bar>int (w * y) - int (b * h)\<bar> < \<bar>int (w * y) - int (a * h)\<bar>), y))
       else
         (let a = (x * h) div w; b = (x * h + w - 1) div w
          in Some (x, pick_aspect a b
                     (0 < a \<and> \<bar>int (w * b) - int (x * h)\<bar> * int a < \<bar>int (w * a) - int (x * h)\<bar> * int b))))"

text \<open>\<open>frame.thumbnail(size, LANCZOS, reducing_gap=None)\<close> on a copy of the image.\<close>
definition thumbnail :: "resampler \<Rightarrow> image \<Rightarrow> nat \<times> nat \<Rightarrow> py_error + image" where
  "thumbnail rs im sz =
     (case thumbnail_size (im_width im, im_height im) sz of
        None \<Rightarrow> Inr im
      | Some sz' \<Rightarrow>
          if sz' = (im_width im, im_height im) then Inr im else resize rs im sz' LANCZOS)"

section \<open>Image.save\<close>

text \<open>The PNG encoder writes the modes it supports and raises \<open>OSError\<close> for the others.\<close>
definition png_mode :: "mode \<Rightarrow> bool" where
  "png_mode m \<longleftrightarrow> straight m"

text \<open>The default \<open>sizes\<close> of the ICO encoder.\<close>
definition ico_default_sizes :: "nat list" where
  "ico_default_sizes = [16, 24, 32, 48, 64, 128, 256]"

text \<open>
  The frames the ICO encoder writes: for each default size that fits in the image (and is
  at most 256), the image itself when its size matches, and a thumbnail otherwise.
\<close>
fun ico_frames :: "resampler \<Rightarrow> image \<Rightarrow> nat list \<Rightarrow> py_error + image list" where
  "ico_frames rs im [] = Inr []"
| "ico_frames rs im (s # ss) =
     (if im_width im < s \<or> im_height im < s \<or> 256 < s then ico_frames rs im ss
      else bind_r (if (im_width im, im_height im) = (s, s) then Inr im else thumbnail rs im (s, s))
             (\<lambda>fr. if png_mode (im_mode fr)
                   then bind_r (ico_frames rs im ss) (\<lambda>frs. Inr (fr # frs))
                   else Inl OSError))"

text \<open>
  \<open>im.save(path, format)\<close>: the encoder registered for the format name runs and the
  file is written; an unknown format name raises \<open>KeyError\<close>. The ICO encoder walks
  \<open>sorted(set(sizes))\<close>.
\<close>
definition image_save :: "resampler \<Rightarrow> image \<Rightarrow> path \<Rightarrow> string \<Rightarrow> (fsworld, unit) io" where
  "image_save rs im p fmt =
     (if fmt = ''PNG'' then
        (if png_mode (im_mode im) then write_file p (PNG_file im) else raise OSError)
      else if fmt = ''ICO'' then
        bind_io (lift (ico_frames rs im (sort (remdups ico_default_sizes)))) (\<lambda>frs.
          write_file p (ICO_file frs))
      else raise KeyError)"

section \<open>Properties\<close>

lemma ico_largest_in: "frames \<noteq> [] \<Longrightarrow> ico_largest frames \<in> set frames"
  using fold_pick_in [of "\<lambda>f best. im_width best * im_height best < im_width f * im_height f"
                         "tl frames" "hd frames"]
  by (cases frames) (auto simp: ico_largest_def)

text \<open>What \<open>Image.open\<close> returns is a well-formed image of a straight mode.\<close>
lemma decode_ok: "decode c = Inr im \<Longrightarrow> wf_image im \<and> straight (im_mode im)"
  by (cases c) (auto simp: list_all_iff dest: ico_largest_in split: if_splits)

lemma ico_default_sizes_sorted [simp]: "sort (remdups ico_default_sizes) = ico_default_sizes"
  by (simp add: ico_default_sizes_def)

lemma div_plus_pred: "0 < (n :: nat) \<Longrightarrow> (s * n + n - 1) div n = s"
  by (intro div_nat_eqI) (simp_all add: algebra_simps)

text \<open>A square thumbnail of a larger square image is exactly the requested square.\<close>
lemma thumbnail_size_square:
  assumes "0 < s" and "s < n"
  shows "thumbnail_size (n, n) (s, s) = Some (s, s)"
proof -
  from assms have a: "(s * n) div n = s" by simp
  from assms have b: "(s * n + n - Suc 0) div n = s" using div_plus_pred [of n s] by simp
  have c: "n * s = s * n" by (rule mult.commute)
  from assms show ?thesis
    by (simp add: thumbnail_size_def pick_aspect_def Let_def a b c)
qed

lemma thumbnail_square:
  assumes "resampler_ok rs" and "sized m n n im" and "straight m" and "0 < s" and "s < n"
  shows "\<exists>fr. thumbnail rs im (s, s) = Inr fr \<and> sized m s s fr"
proof -
  from assms(2,4,5) have "thumbnail rs im (s, s) = resize rs im (s, s) LANCZOS"
    by (simp add: thumbnail_def thumbnail_size_square sized_def)
  moreover from assms have "\<exists>fr. resize rs im (s, s) LANCZOS = Inr fr \<and> sized m s s fr"
    using resize_exact [of rs im s s LANCZOS] by (simp add: sized_def)
  ultimately show ?thesis by simp
qed

text \<open>
  The ICO encoder on a square image of side \<open>n\<close> writes one square frame for each
  requested side up to \<open>n\<close>, in the requested order.
\<close>
lemma ico_frames_square:
  assumes rs: "resampler_ok rs" and im: "sized m n n im" and st: "straight m"
  shows "list_all (\<lambda>s. 0 < s \<and> s \<le> 256) ss \<Longrightarrow>
         \<exists>frs. ico_frames rs im ss = Inr frs \<and>
               list_all2 (\<lambda>f s. sized m s s f) frs (filter (\<lambda>s. s \<le> n) ss)"
proof (induction ss)
  case Nil
  then show ?case by simp
next
  case (Cons s ss)
  from Cons.prems have s: "0 < s" "s \<le> 256" and rest: "list_all (\<lambda>s. 0 < s \<and> s \<le> 256) ss"
    by simp_all
  from rest Cons.IH obtain frs where frs: "ico_frames rs im ss = Inr frs"
    and all: "list_all2 (\<lambda>f s. sized m s s f) frs (filter (\<lambda>s. s \<le> n) ss)"
    by blast
  have dims: "im_width im = n" "im_height im = n" using im by (simp_all add: sized_def)
  show ?case
  proof (cases "n < s")
    case True
    with dims have "ico_frames rs im (s # ss) = ico_frames rs im ss" by simp
    with True frs all show ?thesis by simp
  next
    case False
    obtain fr where fr: "(if (im_width im, im_height im) = (s, s) then Inr im
                          else thumbnail rs im (s, s)) = Inr fr" and sfr: "sized m s s fr"
    proof (cases "s = n")
      case True
      with im dims show ?thesis using that by simp
    next
      case ne: False
      with False have "s < n" by simp
      with rs im st s(1) obtain fr where "thumbnail rs im (s, s) = Inr fr" and "sized m s s fr"
        using thumbnail_square by blast
      with ne dims show ?thesis using that by simp
    qed
    from sfr st have pm: "png_mode (im_mode fr)" by (simp add: sized_def png_mode_def)
    from False dims s(2) fr pm frs have "ico_frames rs im (s # ss) = Inr (fr # frs)"
      by simp
    with False sfr all show ?thesis by simp
  qed
qed

end
