(* ===== verification/Process_Logo.thy ===== *)
theory Process_Logo
  imports Pillow_IO
begin

text \<open>
  The script \<open>src/scripts/process_logo.py\<close>: \<open>create_logo_variants(input_path)\<close> and
  the \<open>__main__\<close> block, over the world of \<open>OS_World\<close> whose files hold the encoded
  values of \<open>Pillow_IO\<close>. Every definition here follows the lines of the script it
  names; the resampling kernel \<open>rs\<close> is the one parameter the script does not fix.
\<close>

section \<open>Constants of the script\<close>

text \<open>\<open>os.makedirs('public/images', exist_ok=True)\<close> (line 9).\<close>
definition output_dir :: string where
  "output_dir = ''public/images''"

text \<open>The \<open>sizes\<close> dictionary (lines 15--19), in its insertion order.\<close>
definition logo_sizes :: "(string \<times> nat) list" where
  "logo_sizes = [(''sm'', 64), (''md'', 128), (''lg'', 256)]"

text \<open>\<open>f'public/images/logo-{name}.png'\<close> (line 24).\<close>
definition variant_path :: "string \<Rightarrow> string" where
  "variant_path name = ''public/images/logo-'' @ name @ ''.png''"

text \<open>\<open>favicon_path = 'public/images/favicon.ico'\<close> (line 30).\<close>
definition favicon_path :: string where
  "favicon_path = ''public/images/favicon.ico''"

text \<open>\<open>input_path = 'logo.png'\<close> (line 43).\<close>
definition input_name :: string where
  "input_name = ''logo.png''"

section \<open>create_logo_variants\<close>

text \<open>\<open>img = Image.open(input_path).convert('RGBA')\<close> (line 12).\<close>
definition open_rgba :: "string \<Rightarrow> (fsworld, image) io" where
  "open_rgba input_path =
     bind_io (at_path input_path image_open) (\<lambda>opened. lift (convert opened RGBA))"

text \<open>\<open>print(f'Created {output_path}')\<close> (line 26, and line 32 for the favicon).\<close>
definition created :: "string \<Rightarrow> (fsworld, unit) io" where
  "created path = print (''Created '' @ path)"

text \<open>One iteration of the loop of lines 22--26.\<close>
definition save_variant :: "resampler \<Rightarrow> image \<Rightarrow> string \<times> nat \<Rightarrow> (fsworld, unit) io" where
  "save_variant rs img entry =
     (case entry of (name, side) \<Rightarrow>
        bind_io (lift (resize rs img (side, side) LANCZOS)) (\<lambda>resized.
        bind_io (at_path (variant_path name) (\<lambda>p. image_save rs resized p ''PNG'')) (\<lambda>_.
        created (variant_path name))))"

text \<open>\<open>for name, size in sizes.items(): ...\<close> (lines 22--26).\<close>
fun save_variants :: "resampler \<Rightarrow> image \<Rightarrow> (string \<times> nat) list \<Rightarrow> (fsworld, unit) io" where
  "save_variants rs img [] = ret ()"
| "save_variants rs img (entry # entries) =
     bind_io (save_variant rs img entry) (\<lambda>_. save_variants rs img entries)"

text \<open>The favicon (lines 28--32).\<close>
definition save_favicon :: "resampler \<Rightarrow> image \<Rightarrow> (fsworld, unit) io" where
  "save_favicon rs img =
     bind_io (lift (resize rs img (32, 32) LANCZOS)) (\<lambda>favicon.
     bind_io (at_path favicon_path (\<lambda>p. image_save rs favicon p ''ICO'')) (\<lambda>_.
     created favicon_path))"

text \<open>\<open>create_logo_variants(input_path)\<close> (lines 4--32).\<close>
definition create_logo_variants :: "resampler \<Rightarrow> string \<Rightarrow> (fsworld, unit) io" where
  "create_logo_variants rs input_path =
     bind_io (os_makedirs output_dir True) (\<lambda>_.
     bind_io (open_rgba input_path) (\<lambda>img.
     bind_io (save_variants rs img logo_sizes) (\<lambda>_.
     save_favicon rs img)))"

section \<open>The main block\<close>

text \<open>
  Line 36: \<open>script_file\<close> is \<open>os.path.abspath(__file__)\<close> as a list of components;
  \<open>os.path.dirname\<close> drops the last one (and keeps the root).
\<close>
definition script_dir :: "path \<Rightarrow> path" where
  "script_dir script_file = butlast script_file"

text \<open>Line 38: \<open>project_root = os.path.dirname(script_dir)\<close>.\<close>
definition project_root :: "path \<Rightarrow> path" where
  "project_root script_file = butlast (script_dir script_file)"

text \<open>The branch of line 44 taken when \<open>logo.png\<close> exists (lines 45--46).\<close>
definition process_found :: "resampler \<Rightarrow> (fsworld, unit) io" where
  "process_found rs =
     bind_io (create_logo_variants rs input_name) (\<lambda>_.
     print ''Logo processing completed successfully!'')"

text \<open>The \<open>else\<close> branch (lines 47--49).\<close>
definition report_missing :: "(fsworld, unit) io" where
  "report_missing =
     bind_io (print (''Error: Could not find logo file at '' @ input_name)) (\<lambda>_.
     print ''Please place the logo.png file in the project root directory.'')"

text \<open>Lines 34--49.\<close>
definition main :: "resampler \<Rightarrow> path \<Rightarrow> (fsworld, unit) io" where
  "main rs script_file =
     (bind_io (chdir (project_root script_file)) (\<lambda>_.
         bind_io (os_path_exists input_name) (\<lambda>found.
         if found then process_found rs else report_missing)))"

text \<open>
  The exit status of \<open>python process_logo.py\<close>: 0 when the main block returns, 1 when an
  exception escapes it (the traceback goes to standard error).
\<close>
definition run_script :: "resampler \<Rightarrow> path \<Rightarrow> fsworld \<Rightarrow> nat \<times> fsworld" where
  "run_script rs script_file w =
     (case main rs script_file w of (Inr _, w') \<Rightarrow> (0, w') | (Inl _, w') \<Rightarrow> (1, w'))"

section \<open>What the outputs are\<close>

text \<open>The directory and the files the specification names, below a project root.\<close>
definition images_dir :: "path \<Rightarrow> path" where
  "images_dir root = root @ [''public'', ''images'']"

definition output_file :: "path \<Rightarrow> string \<Rightarrow> path" where
  "output_file root n = images_dir root @ [n]"

text \<open>A PNG holding a well-formed \<open>RGBA\<close> image of \<open>s \<times> s\<close> pixels is stored at \<open>p\<close>.\<close>
definition png_at :: "fsworld \<Rightarrow> path \<Rightarrow> nat \<Rightarrow> bool" where
  "png_at w p s =
     (case node_at w p of Some (File (PNG_file im)) \<Rightarrow> sized RGBA s s im | _ \<Rightarrow> False)"

text \<open>An ICO whose frames are well-formed square \<open>RGBA\<close> images of the given sides.\<close>
definition ico_at :: "fsworld \<Rightarrow> path \<Rightarrow> nat list \<Rightarrow> bool" where
  "ico_at w p ss =
     (case node_at w p of
        Some (File (ICO_file frs)) \<Rightarrow> list_all2 (\<lambda>f s. sized RGBA s s f) frs ss
      | _ \<Rightarrow> False)"

text \<open>
  The effect \<open>create_logo_variants\<close> is meant to have on a world \<open>w\<close> whose current
  directory is \<open>root\<close>, given the three resized images and the favicon frames: the missing
  directories of \<open>public/images\<close> are created, the four files written in order, and one
  line printed for each.
\<close>
definition variants_world ::
  "fsworld \<Rightarrow> path \<Rightarrow> image \<Rightarrow> image \<Rightarrow> image \<Rightarrow> image list \<Rightarrow> fsworld" where
  "variants_world w root r64 r128 r256 frs =
     (let w1 = ensure_dirs w root [''public'', ''images''];
          w2 = written w1 (output_file root ''logo-sm.png'') (PNG_file r64);
          w3 = written w2 (output_file root ''logo-md.png'') (PNG_file r128);
          w4 = written w3 (output_file root ''logo-lg.png'') (PNG_file r256);
          w5 = written w4 (output_file root ''favicon.ico'') (ICO_file frs)
      in w5\<lparr>stdout := stdout w @ [''Created public/images/logo-sm.png'',
                                  ''Created public/images/logo-md.png'',
                                  ''Created public/images/logo-lg.png'',
                                  ''Created public/images/favicon.ico'']\<rparr>)"

text \<open>
  What \<open>os.makedirs('public/images', exist_ok=True)\<close> needs below a project root:
  nothing on the way is read-only, and \<open>public\<close> and \<open>public/images\<close> are not files.
\<close>
definition images_dir_ok :: "fsworld \<Rightarrow> path \<Rightarrow> bool" where
  "images_dir_ok w root \<longleftrightarrow>
     list_all (\<lambda>p. p \<notin> set (readonly w)) [root, root @ [''public''], images_dir root] \<and>
     list_all (\<lambda>p. node_at w p \<in> {None, Some Dir}) [root @ [''public''], images_dir root]"

text \<open>What the four writes need besides: the outputs are neither directories nor read-only.\<close>
definition outputs_writable :: "fsworld \<Rightarrow> path \<Rightarrow> bool" where
  "outputs_writable w root \<longleftrightarrow>
     images_dir_ok w root \<and>
     list_all (\<lambda>n. node_at w (output_file root n) \<noteq> Some Dir \<and> output_file root n \<notin> set (readonly w))
       [''logo-sm.png'', ''logo-md.png'', ''logo-lg.png'', ''favicon.ico'']"

section \<open>Output paths\<close>

lemma split_variant_path:
  "CHR ''/'' \<notin> set name \<Longrightarrow>
   split_on (CHR ''/'') (variant_path name) = [''public'', ''images'', ''logo-'' @ name @ ''.png'']"
  by (simp add: variant_path_def split_on_sep_append [of _ "''public''", simplified]
                split_on_sep_append [of _ "''images''", simplified] split_on_no_sep)

lemma resolve_variant_path:
  assumes "CHR ''/'' \<notin> set name"
  shows "resolve root (variant_path name) = output_file root (''logo-'' @ name @ ''.png'')"
proof -
  have "take 1 (variant_path name) \<noteq> ''/''" by (simp add: variant_path_def)
  with assms show ?thesis
    by (simp add: resolve_def path_components_def split_variant_path output_file_def images_dir_def)
qed

lemma resolve_favicon_path:
  "resolve root favicon_path = output_file root ''favicon.ico''"
  by (simp add: resolve_def path_components_def favicon_path_def output_file_def images_dir_def)

lemma resolve_input_name: "resolve root input_name = root @ [''logo.png'']"
  by (simp add: resolve_def path_components_def input_name_def)

lemma output_dir_components: "path_components output_dir = [''public'', ''images'']"
  by (simp add: path_components_def output_dir_def)

lemma butlast_output_file [simp]: "butlast (output_file root n) = images_dir root"
  by (simp add: output_file_def)

lemma output_file_ne [simp]: "output_file root n \<noteq> []"
  by (simp add: output_file_def)

section \<open>The script, step by step\<close>

text \<open>The world after one line is printed.\<close>
lemma save_variant_ok:
  assumes wf: "wf_world w" and cwd: "cwd w = root"
    and dir: "node_at w (images_dir root) = Some Dir" and slash: "CHR ''/'' \<notin> set name"
    and rz: "resize rs img (side, side) LANCZOS = Inr r" and pm: "png_mode (im_mode r)"
    and fw: "file_writable w (output_file root (''logo-'' @ name @ ''.png''))"
  shows "save_variant rs img (name, side) w =
           (Inr (), (written w (output_file root (''logo-'' @ name @ ''.png'')) (PNG_file r))
                      \<lparr>stdout := stdout w @ [''Created '' @ variant_path name]\<rparr>)"
  using assms
  by (simp add: save_variant_def created_def io_simps at_path_apply resolve_variant_path image_save_def
                write_file_ok print_apply)

lemma save_favicon_ok:
  assumes wf: "wf_world w" and cwd: "cwd w = root"
    and dir: "node_at w (images_dir root) = Some Dir"
    and rz: "resize rs img (32, 32) LANCZOS = Inr fav"
    and fr: "ico_frames rs fav ico_default_sizes = Inr frs"
    and fw: "file_writable w (output_file root ''favicon.ico'')"
  shows "save_favicon rs img w =
           (Inr (), (written w (output_file root ''favicon.ico'') (ICO_file frs))
                      \<lparr>stdout := stdout w @ [''Created '' @ favicon_path]\<rparr>)"
  using assms
  by (simp add: save_favicon_def created_def io_simps at_path_apply resolve_favicon_path image_save_def
                write_file_ok print_apply)

lemma prefix_two: "prefix r [a, b] \<longleftrightarrow> r = [] \<or> r = [a] \<or> r = [a, b]"
  by (cases r; cases "tl r") (auto simp: prefix_Cons)

lemma node_at_script_dirs:
  "node_at (ensure_dirs w root [''public'', ''images'']) (root @ r) =
     (if r = [''public''] \<or> r = [''public'', ''images''] then Some Dir else node_at w (root @ r))"
  by (auto simp: node_at_ensure_dirs prefix_two)

text \<open>The \<open>makedirs\<close> call of line 9 creates what is missing of \<open>public/images\<close>.\<close>
lemma makedirs_output_dir:
  assumes wf: "wf_world w" and cwd: "cwd w = root" and rootd: "node_at w root = Some Dir"
    and ow: "images_dir_ok w root"
  shows "os_makedirs output_dir True w = (Inr (), ensure_dirs w root [''public'', ''images''])"
proof -
  have "\<forall>q\<in>set (tl (prefixes [''public'', ''images''])). dir_creatable w (root @ q)"
    using ow by (auto simp: images_dir_ok_def dir_creatable_def images_dir_def butlast_append
                      split: option.splits node.splits)
  with wf rootd have "makedirs True root [''public'', ''images''] w =
                      (Inr (), ensure_dirs w root [''public'', ''images''])"
    by (intro makedirs_ensure) simp_all
  moreover have "take 1 output_dir \<noteq> ''/''" by (simp add: output_dir_def)
  ultimately show ?thesis
    using cwd by (simp add: os_makedirs_def output_dir_components)
qed

lemma file_writable_same:
  "node_at w' p = node_at w p \<Longrightarrow> readonly w' = readonly w \<Longrightarrow> file_writable w' p = file_writable w p"
  by (simp add: file_writable_def split: option.splits node.splits)

lemma file_writable_written [simp]:
  "p \<noteq> q \<Longrightarrow> file_writable (written w q c) p = file_writable w p"
  by (rule file_writable_same) simp_all

lemma outputs_file_writable:
  assumes "outputs_writable w root"
    and "n \<in> {''logo-sm.png'', ''logo-md.png'', ''logo-lg.png'', ''favicon.ico''}"
  shows "file_writable w (output_file root n)"
  using assms
  by (intro file_writable_intro) (auto simp: outputs_writable_def images_dir_ok_def images_dir_def)

lemma output_file_eq [simp]: "output_file root n = output_file root m \<longleftrightarrow> n = m"
  by (simp add: output_file_def)

lemma output_file_not_dir [simp]:
  "output_file root n \<noteq> root @ [''public'']" "output_file root n \<noteq> images_dir root"
  "images_dir root \<noteq> output_file root n" "root @ [''public''] \<noteq> output_file root n"
  by (simp_all add: output_file_def images_dir_def)

text \<open>\<open>Image.open('logo.png')\<close> after the directories are made.\<close>
lemma open_input:
  assumes "wf_world w" and "cwd w = root" and "node_at w (root @ [''logo.png'']) = Some (File c)"
  shows "at_path input_name image_open w = (decode c, w)"
  using assms by (simp add: at_path_apply resolve_input_name image_open_def io_simps read_file_ok)

text \<open>When \<open>public\<close> is a file, \<open>mkdir('public/images')\<close> fails with \<open>ENOTDIR\<close> and so does the call.\<close>
lemma makedirs_output_dir_blocked:
  assumes wf: "wf_world w" and cwd: "cwd w = root" and pub: "node_at w (root @ [''public'']) = Some (File x)"
  shows "os_makedirs output_dir True w = (Inl NotADirectoryError, w)"
proof -
  have walk: "walk_error w (root @ [''public'']) = Some NotADirectoryError"
    using wf pub by (rule walk_error_file)
  have "node_at w (root @ [''public'', ''images'']) = None"
  proof (rule ccontr)
    assume "node_at w (root @ [''public'', ''images'']) \<noteq> None"
    then obtain n where "node_at w (root @ [''public'', ''images'']) = Some n" by blast
    with wf have "node_at w (butlast (root @ [''public'', ''images''])) = Some Dir"
      by (rule parent_of_entry_wf)
    with pub show False by (simp add: butlast_append)
  qed
  with wf walk pub have "makedirs True root [''public'', ''images''] w = (Inl NotADirectoryError, w)"
    by (subst makedirs.simps) (simp add: io_simps mkdir_def butlast_append)
  moreover have "take 1 output_dir \<noteq> ''/''" by (simp add: output_dir_def)
  ultimately show ?thesis
    using cwd by (simp add: os_makedirs_def output_dir_components)
qed

text \<open>A variant whose output path is a directory raises \<open>IsADirectoryError\<close> before printing.\<close>
lemma save_variant_dir:
  assumes wf: "wf_world w" and cwd: "cwd w = root" and slash: "CHR ''/'' \<notin> set name"
    and rz: "resize rs img (side, side) LANCZOS = Inr r" and pm: "png_mode (im_mode r)"
    and d: "node_at w (output_file root (''logo-'' @ name @ ''.png'')) = Some Dir"
  shows "save_variant rs img (name, side) w = (Inl IsADirectoryError, w)"
  using assms
  by (simp add: save_variant_def created_def io_simps at_path_apply resolve_variant_path image_save_def
                write_file_dir)

end
