(* ===== verification/Logo_Runs.thy ===== *)
theory Logo_Runs
  imports Process_Logo
begin

text \<open>
  Whole runs of \<open>src/scripts/process_logo.py\<close>: the loop over \<open>sizes\<close>,
  \<open>create_logo_variants\<close> and the main block composed from the step lemmas of
  \<open>Process_Logo\<close>; a reference for the loop on any list of entries; and the invariant
  that every part keeps the world well-formed.
\<close>

section \<open>A reference for the loop\<close>

text \<open>
  Reference for the loop of lines 22--26 on any list of entries: each entry writes its
  resized image and prints its line, one after the other.
\<close>
fun variants_written :: "resampler \<Rightarrow> image \<Rightarrow> path \<Rightarrow> (string \<times> nat) list \<Rightarrow> fsworld \<Rightarrow> fsworld" where
  "variants_written rs img root [] w = w"
| "variants_written rs img root ((name, side) # entries) w =
     variants_written rs img root entries
       ((written w (output_file root (''logo-'' @ name @ ''.png''))
                 (PNG_file (projr (resize rs img (side, side) LANCZOS))))
          \<lparr>stdout := stdout w @ [''Created '' @ variant_path name]\<rparr>)"

text \<open>An entry the loop can save: a name without a slash, a resize that succeeds to a PNG mode, and a writable output.\<close>
definition entry_ok :: "resampler \<Rightarrow> image \<Rightarrow> fsworld \<Rightarrow> path \<Rightarrow> string \<times> nat \<Rightarrow> bool" where
  "entry_ok rs img w root entry =
     (case entry of (name, side) \<Rightarrow>
        CHR ''/'' \<notin> set name \<and>
        (case resize rs img (side, side) LANCZOS of Inr r \<Rightarrow> png_mode (im_mode r) | Inl _ \<Rightarrow> False) \<and>
        file_writable w (output_file root (''logo-'' @ name @ ''.png'')))"

section \<open>Whole runs\<close>

lemma save_variants_ok:
  assumes wf: "wf_world w" and cwd: "cwd w = root" and dir: "node_at w (images_dir root) = Some Dir"
    and ow: "outputs_writable w root"
    and ra: "resize rs img (64, 64) LANCZOS = Inr a" and pa: "im_mode a = RGBA"
    and rb: "resize rs img (128, 128) LANCZOS = Inr b" and pb: "im_mode b = RGBA"
    and rd: "resize rs img (256, 256) LANCZOS = Inr d" and pd: "im_mode d = RGBA"
  shows "save_variants rs img logo_sizes w =
           (Inr (), (written (written (written w
                       (output_file root ''logo-sm.png'') (PNG_file a))
                       (output_file root ''logo-md.png'') (PNG_file b))
                       (output_file root ''logo-lg.png'') (PNG_file d))
                    \<lparr>stdout := stdout w @ [''Created public/images/logo-sm.png'',
                                            ''Created public/images/logo-md.png'',
                                            ''Created public/images/logo-lg.png'']\<rparr>)"
proof -
  define w2 where "w2 = written w (output_file root ''logo-sm.png'') (PNG_file a)"
  define w3 where "w3 = written w2 (output_file root ''logo-md.png'') (PNG_file b)"
  define w4 where "w4 = written w3 (output_file root ''logo-lg.png'') (PNG_file d)"
  have pm: "png_mode RGBA" by (simp add: png_mode_def straight_def)
  have fw: "file_writable w (output_file root n)"
    if "n \<in> {''logo-sm.png'', ''logo-md.png'', ''logo-lg.png'', ''favicon.ico''}" for n
    using ow that by (rule outputs_file_writable)
  have ne: "node_at w (output_file root n) \<noteq> Some Dir"
    if "n \<in> {''logo-sm.png'', ''logo-md.png'', ''logo-lg.png'', ''favicon.ico''}" for n
    using fw [OF that] by (auto simp: file_writable_def)
  have wf2: "wf_world w2" unfolding w2_def using wf dir ne by (intro written_wf) simp_all
  have wf3: "wf_world w3" unfolding w3_def using wf2 dir ne by (intro written_wf) (simp_all add: w2_def)
  have s1: "save_variant rs img (''sm'', 64) w =
              (Inr (), w2\<lparr>stdout := stdout w @ [''Created '' @ variant_path ''sm'']\<rparr>)"
    unfolding w2_def using wf cwd dir ra pa pm fw by (subst save_variant_ok) simp_all
  have s2: "save_variant rs img (''md'', 128) (w2\<lparr>stdout := x\<rparr>) =
              (Inr (), w3\<lparr>stdout := x @ [''Created '' @ variant_path ''md'']\<rparr>)" for x
    unfolding w3_def using wf2 cwd dir rb pb pm fw
    by (subst save_variant_ok) (simp_all add: w2_def written_stdout)
  have s3: "save_variant rs img (''lg'', 256) (w3\<lparr>stdout := x\<rparr>) =
              (Inr (), w4\<lparr>stdout := x @ [''Created '' @ variant_path ''lg'']\<rparr>)" for x
    unfolding w4_def using wf3 cwd dir rd pd pm fw
    by (subst save_variant_ok) (simp_all add: w2_def w3_def written_stdout)
  show ?thesis
    by (simp add: logo_sizes_def io_simps s1 s2 s3 w2_def [symmetric] w3_def [symmetric]
                  w4_def [symmetric] variant_path_def)
qed

lemma outputs_writable_dirs:
  "outputs_writable w root \<Longrightarrow> outputs_writable (ensure_dirs w root [''public'', ''images'']) root"
  by (simp add: outputs_writable_def images_dir_ok_def images_dir_def output_file_def node_at_script_dirs
           del: append_Cons)

lemma create_logo_variants_ok:
  assumes wf: "wf_world w" and cwd: "cwd w = root" and rootd: "node_at w root = Some Dir"
    and ow: "outputs_writable w root"
    and inp: "node_at w (root @ [''logo.png'']) = Some (File c)"
    and dec: "decode c = Inr opened" and cv: "convert opened RGBA = Inr img"
    and ra: "resize rs img (64, 64) LANCZOS = Inr a" and pa: "im_mode a = RGBA"
    and rb: "resize rs img (128, 128) LANCZOS = Inr b" and pb: "im_mode b = RGBA"
    and rd: "resize rs img (256, 256) LANCZOS = Inr d" and pd: "im_mode d = RGBA"
    and rf: "resize rs img (32, 32) LANCZOS = Inr fav"
    and fr: "ico_frames rs fav ico_default_sizes = Inr frs"
  shows "create_logo_variants rs input_name w = (Inr (), variants_world w root a b d frs)"
proof -
  define w1 where "w1 = ensure_dirs w root [''public'', ''images'']"
  have wf1: "wf_world w1" using wf rootd unfolding w1_def by (rule ensure_dirs_wf)
  have cwd1: "cwd w1 = root" using cwd by (simp add: w1_def)
  have st1: "stdout w1 = stdout w" by (simp add: w1_def)
  have dir1: "node_at w1 (images_dir root) = Some Dir"
    by (simp add: w1_def images_dir_def node_at_script_dirs)
  have inp1: "node_at w1 (root @ [''logo.png'']) = Some (File c)"
    using inp by (simp add: w1_def node_at_script_dirs)
  have ow1: "outputs_writable w1 root" using ow unfolding w1_def by (rule outputs_writable_dirs)
  have mk: "os_makedirs output_dir True w = (Inr (), w1)"
    unfolding w1_def using wf cwd rootd ow by (intro makedirs_output_dir) (simp_all add: outputs_writable_def)
  have op: "at_path input_name image_open w1 = (Inr opened, w1)"
    using open_input [OF wf1 cwd1 inp1] dec by simp
  define w4 where "w4 = written (written (written w1
                       (output_file root ''logo-sm.png'') (PNG_file a))
                       (output_file root ''logo-md.png'') (PNG_file b))
                       (output_file root ''logo-lg.png'') (PNG_file d)"
  define out where "out = [''Created public/images/logo-sm.png'',
                           ''Created public/images/logo-md.png'',
                           ''Created public/images/logo-lg.png'']"
  have sv: "save_variants rs img logo_sizes w1 = (Inr (), w4\<lparr>stdout := stdout w1 @ out\<rparr>)"
    unfolding w4_def out_def using wf1 cwd1 dir1 ow1 ra pa rb pb rd pd by (rule save_variants_ok)
  have fw: "file_writable w1 (output_file root n)"
    if "n \<in> {''logo-sm.png'', ''logo-md.png'', ''logo-lg.png'', ''favicon.ico''}" for n
    using ow1 that by (rule outputs_file_writable)
  have ne: "node_at w1 (output_file root n) \<noteq> Some Dir"
    if "n \<in> {''logo-sm.png'', ''logo-md.png'', ''logo-lg.png'', ''favicon.ico''}" for n
    using fw [OF that] by (auto simp: file_writable_def)
  have wf4: "wf_world w4" unfolding w4_def using wf1 dir1 ne
    by (intro written_wf) simp_all
  have sf: "save_favicon rs img (w4\<lparr>stdout := stdout w1 @ out\<rparr>) =
              (Inr (), (written w4 (output_file root ''favicon.ico'') (ICO_file frs))
                 \<lparr>stdout := stdout w1 @ out @ [''Created '' @ favicon_path]\<rparr>)"
  proof -
    have "file_writable (w4\<lparr>stdout := stdout w1 @ out\<rparr>) (output_file root ''favicon.ico'')"
      using fw by (simp add: w4_def)
    then show ?thesis using wf4 cwd1 dir1 rf fr
      by (subst save_favicon_ok) (simp_all add: w4_def written_stdout)
  qed
  show ?thesis
    by (simp add: create_logo_variants_def open_rgba_def io_simps mk op cv sv [unfolded st1 out_def] sf [unfolded st1 out_def]
                  variants_world_def Let_def
                  w1_def [symmetric] w4_def [symmetric] out_def favicon_path_def written_stdout)
qed

lemma script_images:
  assumes rs: "resampler_ok rs" and dec: "decode c = Inr opened"
  obtains img a b d fav frs where "convert opened RGBA = Inr img"
    and "resize rs img (64, 64) LANCZOS = Inr a" and "sized RGBA 64 64 a"
    and "resize rs img (128, 128) LANCZOS = Inr b" and "sized RGBA 128 128 b"
    and "resize rs img (256, 256) LANCZOS = Inr d" and "sized RGBA 256 256 d"
    and "resize rs img (32, 32) LANCZOS = Inr fav"
    and "ico_frames rs fav ico_default_sizes = Inr frs"
    and "list_all2 (\<lambda>f s. sized RGBA s s f) frs [16, 24, 32]"
proof -
  from dec have wf: "wf_image opened" and st: "straight (im_mode opened)"
    by (simp_all add: decode_ok)
  have rgba: "straight RGBA" by (simp add: straight_def)
  from st rgba obtain img where cv: "convert opened RGBA = Inr img"
    using convert_straight by blast
  from wf cv have "sized RGBA (im_width opened) (im_height opened) img" by (rule convert_sized)
  then have wfi: "wf_image img" and mi: "im_mode img = RGBA" by (simp_all add: sized_def)
  have rz: "\<exists>r. resize rs img (s, s) LANCZOS = Inr r \<and> sized RGBA s s r" if "0 < s" for s
    using resize_exact [OF rs wfi, of s s LANCZOS] mi rgba that by simp
  obtain a where "resize rs img (64, 64) LANCZOS = Inr a" "sized RGBA 64 64 a"
    using rz [of 64] by auto
  moreover obtain b where "resize rs img (128, 128) LANCZOS = Inr b" "sized RGBA 128 128 b"
    using rz [of 128] by auto
  moreover obtain d where "resize rs img (256, 256) LANCZOS = Inr d" "sized RGBA 256 256 d"
    using rz [of 256] by auto
  moreover obtain fav where fav: "resize rs img (32, 32) LANCZOS = Inr fav" "sized RGBA 32 32 fav"
    using rz [of 32] by auto
  moreover obtain frs where "ico_frames rs fav ico_default_sizes = Inr frs"
    and "list_all2 (\<lambda>f s. sized RGBA s s f) frs (filter (\<lambda>s. s \<le> 32) ico_default_sizes)"
    using ico_frames_square [OF rs fav(2) rgba, of ico_default_sizes]
    by (auto simp: ico_default_sizes_def)
  ultimately show ?thesis using that cv by (simp add: ico_default_sizes_def)
qed


lemma image_open_wf [io_inv_intros]: "io_inv wf_world (image_open p)"
  unfolding image_open_def by (intro io_inv_intros)

lemma image_save_wf [io_inv_intros]: "io_inv wf_world (image_save rs im p fmt)"
  unfolding image_save_def by (intro io_inv_intros)

lemma save_variant_wf [io_inv_intros]: "io_inv wf_world (save_variant rs img entry)"
  unfolding save_variant_def created_def by (cases entry) (simp, intro io_inv_intros)

lemma save_variants_wf [io_inv_intros]: "io_inv wf_world (save_variants rs img entries)"
  by (induction entries) (simp_all add: io_inv_intros)

lemma save_favicon_wf [io_inv_intros]: "io_inv wf_world (save_favicon rs img)"
  unfolding save_favicon_def created_def by (intro io_inv_intros)

lemma create_logo_variants_wf [io_inv_intros]: "io_inv wf_world (create_logo_variants rs s)"
  unfolding create_logo_variants_def open_rgba_def by (intro io_inv_intros)

lemma main_wf [io_inv_intros]: "io_inv wf_world (main rs script_file)"
  unfolding main_def process_found_def report_missing_def by (intro io_inv_intros)

lemma run_script_snd: "snd (run_script rs script_file w) = snd (main rs script_file w)"
  by (simp add: run_script_def split: prod.splits sum.splits)

lemma node_at_variants_world:
  "node_at (variants_world w root a b d frs) p =
     (if p \<in> output_file root ` {''logo-sm.png'', ''logo-md.png'', ''logo-lg.png'', ''favicon.ico''}
      then Some (File (if p = output_file root ''logo-sm.png'' then PNG_file a
                       else if p = output_file root ''logo-md.png'' then PNG_file b
                       else if p = output_file root ''logo-lg.png'' then PNG_file d
                       else ICO_file frs))
      else node_at (ensure_dirs w root [''public'', ''images'']) p)"
  by (auto simp: variants_world_def Let_def)

lemma chdir_root_wf:
  "wf_world w \<Longrightarrow> node_at w root = Some Dir \<Longrightarrow> wf_world (w\<lparr>cwd := root, events := e\<rparr>)"
  by (simp add: wf_world_def)

text \<open>The main block when \<open>logo.png\<close> exists: exit 0 and the last line when the call returns.\<close>
lemma run_script_found:
  assumes wf: "wf_world w" and root: "project_root script_file = root"
    and rootd: "node_at w root = Some Dir" and inp: "node_at w (root @ [''logo.png'']) \<noteq> None"
  shows "run_script rs script_file w =
           (case create_logo_variants rs input_name (w\<lparr>cwd := root, events := events w @ [Ev_chdir root]\<rparr>) of
              (Inr _, w') \<Rightarrow> (0, w'\<lparr>stdout := stdout w' @ [''Logo processing completed successfully!'']\<rparr>)
            | (Inl _, w') \<Rightarrow> (1, w'))"
proof -
  let ?w0 = "w\<lparr>cwd := root, events := events w @ [Ev_chdir root]\<rparr>"
  have ch: "chdir (project_root script_file) w = (Inr (), ?w0)"
    unfolding root using wf rootd by (rule chdir_dir)
  have "wf_world ?w0" using wf rootd by (rule chdir_root_wf)
  with inp have ex: "os_path_exists input_name ?w0 = (Inr True, ?w0)"
    by (simp add: os_path_exists_apply resolve_input_name)
  show ?thesis
    by (simp add: run_script_def main_def process_found_def report_missing_def io_simps ch ex print_apply split: prod.splits sum.splits)
qed

lemma open_input_fails:
  assumes wf: "wf_world w" and cwd: "cwd w = root"
    and bad: "node_at w (root @ [''logo.png'']) = Some Dir \<or>
              (\<exists>c e. node_at w (root @ [''logo.png'']) = Some (File c) \<and> decode c = Inl e)"
  shows "\<exists>e. at_path input_name image_open w = (Inl e, w)"
proof -
  from bad obtain n where n: "node_at w (root @ [''logo.png'']) = Some n" by blast
  with wf have "node_at w root = Some Dir" using parent_of_entry_wf [of w "root @ [''logo.png'']"]
    by simp
  with wf bad show ?thesis
    by (auto simp: at_path_apply resolve_input_name cwd image_open_def io_simps read_file_def)
qed

text \<open>The whole run when every step succeeds, given what the library calls return.\<close>
lemma run_script_ok:
  assumes wf: "wf_world w" and root: "project_root script_file = root"
    and rootd: "node_at w root = Some Dir" and ow: "outputs_writable w root"
    and inp: "node_at w (root @ [''logo.png'']) = Some (File c)"
    and dec: "decode c = Inr opened" and cv: "convert opened RGBA = Inr img"
    and ra: "resize rs img (64, 64) LANCZOS = Inr a" and pa: "im_mode a = RGBA"
    and rb: "resize rs img (128, 128) LANCZOS = Inr b" and pb: "im_mode b = RGBA"
    and rd: "resize rs img (256, 256) LANCZOS = Inr d" and pd: "im_mode d = RGBA"
    and rf: "resize rs img (32, 32) LANCZOS = Inr fav"
    and fr: "ico_frames rs fav ico_default_sizes = Inr frs"
  shows "run_script rs script_file w =
           (0, (variants_world (w\<lparr>cwd := root, events := events w @ [Ev_chdir root]\<rparr>) root a b d frs)
                 \<lparr>stdout := stdout w @ [''Created public/images/logo-sm.png'',
                                        ''Created public/images/logo-md.png'',
                                        ''Created public/images/logo-lg.png'',
                                        ''Created public/images/favicon.ico'',
                                        ''Logo processing completed successfully!'']\<rparr>)"
proof -
  let ?w0 = "w\<lparr>cwd := root, events := events w @ [Ev_chdir root]\<rparr>"
  have "wf_world ?w0" using wf rootd by (rule chdir_root_wf)
  moreover have "cwd ?w0 = root" and "node_at ?w0 root = Some Dir" and "outputs_writable ?w0 root"
    and "node_at ?w0 (root @ [''logo.png'']) = Some (File c)"
    using rootd ow inp by (simp_all add: outputs_writable_def images_dir_ok_def)
  ultimately have "create_logo_variants rs input_name ?w0 = (Inr (), variants_world ?w0 root a b d frs)"
    using dec cv ra pa rb pb rd pd rf fr by (rule create_logo_variants_ok)
  with run_script_found [OF wf root rootd] inp show ?thesis
    by (simp add: variants_world_def Let_def)
qed

text \<open>A second run over the outputs of a first one rewrites every file with what it holds.\<close>
lemma fs_variants_world_same:
  assumes wf: "wf_world w" and dir: "node_at w (images_dir root) = Some Dir"
    and "node_at w (output_file root ''logo-sm.png'') = Some (File (PNG_file a))"
    and "node_at w (output_file root ''logo-md.png'') = Some (File (PNG_file b))"
    and "node_at w (output_file root ''logo-lg.png'') = Some (File (PNG_file d))"
    and "node_at w (output_file root ''favicon.ico'') = Some (File (ICO_file frs))"
  shows "fs (variants_world w root a b d frs) = fs w"
proof -
  have "ensure_dirs w root [''public'', ''images''] = w"
    using wf dir by (intro ensure_dirs_existing) (simp_all add: images_dir_def)
  with assms(3-6) show ?thesis
    by (simp add: variants_world_def Let_def fs_written update_same)
qed

lemma outputs_writable_variants_world:
  assumes "outputs_writable w root"
  shows "outputs_writable (variants_world w root a b d frs) root"
  using assms
  by (simp add: outputs_writable_def images_dir_ok_def node_at_variants_world node_at_script_dirs
                images_dir_def output_file_def variants_world_def Let_def
           del: append_Cons)

text \<open>
  The script's run on any world that holds the same \<open>logo.png\<close>: the images it writes
  depend on the input alone.
\<close>
lemma run_script_success:
  assumes rs: "resampler_ok rs" and root: "project_root script_file = root"
    and dec: "decode c = Inr opened"
  obtains a b d frs where "sized RGBA 64 64 a" and "sized RGBA 128 128 b" and "sized RGBA 256 256 d"
    and "list_all2 (\<lambda>f s. sized RGBA s s f) frs [16, 24, 32]"
    and "\<And>u. wf_world u \<Longrightarrow> node_at u root = Some Dir \<Longrightarrow> outputs_writable u root \<Longrightarrow>
           node_at u (root @ [''logo.png'']) = Some (File c) \<Longrightarrow>
           run_script rs script_file u =
             (0, let v = variants_world (u\<lparr>cwd := root, events := events u @ [Ev_chdir root]\<rparr>)
                                        root a b d frs
                 in v\<lparr>stdout := stdout v @ [''Logo processing completed successfully!'']\<rparr>)"
    and "\<exists>img. convert opened RGBA = Inr img \<and> resize rs img (256, 256) LANCZOS = Inr d"
proof -
  obtain img a b d fav frs where cv: "convert opened RGBA = Inr img"
    and ra: "resize rs img (64, 64) LANCZOS = Inr a" and sa: "sized RGBA 64 64 a"
    and rb: "resize rs img (128, 128) LANCZOS = Inr b" and sb: "sized RGBA 128 128 b"
    and rd: "resize rs img (256, 256) LANCZOS = Inr d" and sd: "sized RGBA 256 256 d"
    and rf: "resize rs img (32, 32) LANCZOS = Inr fav"
    and fr: "ico_frames rs fav ico_default_sizes = Inr frs"
    and sfr: "list_all2 (\<lambda>f s. sized RGBA s s f) frs [16, 24, 32]"
    using rs dec by (rule script_images)
  have modes: "im_mode a = RGBA" "im_mode b = RGBA" "im_mode d = RGBA"
    using sa sb sd by (simp_all add: sized_def)
  have runu: "run_script rs script_file u =
          (0, let v = variants_world (u\<lparr>cwd := root, events := events u @ [Ev_chdir root]\<rparr>)
                                     root a b d frs
              in v\<lparr>stdout := stdout v @ [''Logo processing completed successfully!'']\<rparr>)"
    if "wf_world u" "node_at u root = Some Dir" "outputs_writable u root"
       "node_at u (root @ [''logo.png'']) = Some (File c)" for u
    using run_script_ok [OF that(1) root that(2) that(3) that(4) dec cv ra modes(1) rb modes(2)
                            rd modes(3) rf fr]
    by (simp add: variants_world_def Let_def)
  have cvd: "\<exists>img. convert opened RGBA = Inr img \<and> resize rs img (256, 256) LANCZOS = Inr d"
    using cv rd by blast
  from sa sb sd sfr runu cvd show ?thesis by (rule that)
qed

section \<open>Entries of the loop\<close>

lemma variant_file_inj [simp]:
  "output_file root (''logo-'' @ n @ ''.png'') = output_file root (''logo-'' @ m @ ''.png'') \<longleftrightarrow> n = m"
  by simp

lemma entry_ok_step:
  assumes "entry_ok rs img w root e" and "fst e \<noteq> n"
  shows "entry_ok rs img ((written w (output_file root (''logo-'' @ n @ ''.png'')) c)\<lparr>stdout := x\<rparr>) root e"
  using assms by (cases e) (simp add: entry_ok_def)

end
