(* ===== verification/Spec2Isabelle.thy ===== *)
theory Spec2Isabelle
  imports Logo_Runs
begin

text \<open>
  \<^bold>\<open>A verification development of \<open>src/scripts/process_logo.py\<close>.\<close>

  The repository's program is one Python script. \<open>create_logo_variants(input_path)\<close>
  makes the directory \<open>public/images\<close> (\<open>os.makedirs(..., exist_ok=True)\<close>), opens the
  input with Pillow and converts it to \<open>RGBA\<close>, writes a PNG resized with the
  \<open>LANCZOS\<close> filter for each entry of the dictionary \<open>sizes\<close> (\<open>sm\<close> 64, \<open>md\<close> 128,
  \<open>lg\<close> 256, in that order), writes a 32 by 32 resize with the \<open>ICO\<close> encoder to
  \<open>favicon.ico\<close>, and prints one line per file. The \<open>__main__\<close> block changes to the
  project root (two \<open>dirname\<close>s above the script), and runs the function when
  \<open>logo.png\<close> exists there; otherwise it prints two error lines. The script's parts
  interact only through the world: the file system the calls of \<open>os\<close> and Pillow read
  and write, the current directory, and standard output.

  \<^bold>\<open>Theories.\<close>
  \<^item> \<open>Prelude\<close>: the Python exceptions (\<open>py_error\<close>), the exception-and-state monad
    \<open>('s, 'a) io\<close> (\<open>ret\<close>, \<open>raise\<close>, \<open>bind_io\<close>, \<open>catch\<close>, \<open>lift\<close>, \<open>modify\<close>) in
    which every effect is written (an exception keeps the state reached, as in Python),
    the predicate \<open>io_inv\<close> with its rules \<open>io_inv_intros\<close> and \<open>io_inv_bindI\<close>, and path
    strings (\<open>split_on\<close> for \<open>str.split\<close>, \<open>path_components\<close>, \<open>resolve\<close>, \<open>join_path\<close>).
  \<^item> \<open>OS_World\<close>: the world, a record of the file system (an association list from
    absolute paths to directories and files), the current directory, the read-only paths,
    standard output and the trace of file-system calls (\<open>events\<close>); \<open>mkdir\<close>,
    \<open>os.makedirs\<close> (CPython's recursive algorithm, a \<open>function\<close> whose termination is
    the measure \<open>length cs\<close>), \<open>open\<close> for reading and writing, \<open>chdir\<close>,
    \<open>os.path.exists\<close>, \<open>os.path.isdir\<close>, \<open>print\<close>. Every call keeps the world
    well-formed (\<open>wf_world\<close>), \<open>makedirs\<close> keeps every invariant \<open>mkdir\<close> keeps, and
    \<open>makedirs_ensure\<close> shows that \<open>makedirs\<close> creates exactly the missing directories.
  \<^item> \<open>Pillow_Image\<close>: images (\<open>image\<close>: mode, size, row-major pixels, colour-key
    transparency), \<open>Image.convert\<close> with the per-pixel converters of libImaging and the
    fixed-point \<open>MULDIV255\<close> (proved to round \<open>a * b / 255\<close> to nearest), and
    \<open>Image.resize\<close> with its copy for an unchanged size and its premultiplied-alpha
    detour. The convolution kernel of the filters other than \<open>NEAREST\<close> is an interface
    (\<open>resampler\<close>) with a contract (\<open>resampler_ok\<close>: the right number of pixels of the
    right number of bands); the \<open>NEAREST\<close> path is modelled and meets the contract, and
    every theorem below holds for every kernel that does.
  \<^item> \<open>Pillow_IO\<close>: file contents (\<open>encoded\<close>), \<open>Image.open\<close> (format detection, the
    largest ICO frame), \<open>Image.thumbnail\<close>, and \<open>Image.save\<close> with the \<open>PNG\<close> and
    \<open>ICO\<close> encoders (the ICO frames are the default sizes that fit).
  \<^item> \<open>Process_Logo\<close>: the script, one definition per part in the order of the code
    (\<open>output_dir\<close>, \<open>logo_sizes\<close>, \<open>variant_path\<close>, \<open>favicon_path\<close>, \<open>input_name\<close>,
    \<open>open_rgba\<close> for line 12, \<open>created\<close> for the \<open>Created\<close> lines, \<open>save_variant\<close>
    and \<open>save_variants\<close> for the loop, \<open>save_favicon\<close>, \<open>create_logo_variants\<close>,
    \<open>script_dir\<close> and \<open>project_root\<close>, \<open>process_found\<close> and \<open>report_missing\<close> for
    the two branches, \<open>main\<close>, and \<open>run_script\<close> for the exit status), the shape of its outputs (\<open>output_file\<close>, \<open>variants_world\<close>,
    \<open>outputs_writable\<close>), and one lemma per step of the script.
  \<^item> \<open>Logo_Runs\<close>: whole runs composed from the steps (\<open>run_script_found\<close>,
    \<open>run_script_ok\<close>, \<open>run_script_success\<close>), the reference \<open>variants_written\<close> for the
    loop, and the invariant that every part keeps the world well-formed.
  \<^item> This theory: example worlds (a project \<open>/proj\<close> in several states) and the claims
    C1 to C9, with a witness each.

  \<^bold>\<open>The claims.\<close> C1 (\<open>main_success\<close>) and C9 (\<open>main_lg_alpha\<close>) describe a
  successful run: the exit status, the three variants and the favicon with their sizes
  and modes, the lines printed, and that a 256-pixel input reaches \<open>logo-lg.png\<close> with
  its alpha band untouched. C2 to C5 are the four ways a run ends early: no input (C2),
  \<open>public\<close> a file (C3), an input Pillow cannot open (C4), an output path that is a
  directory, after the earlier outputs are written (C5). C6 is idempotence: a second run
  over the outputs of a first leaves the same files. C7 is the order of the file-system
  calls of a run, and C8 the loop over \<open>sizes.items()\<close> against its reference on any
  list of entries.

  \<^bold>\<open>Bounds and fuel.\<close> No fuel is needed: every loop of the script and of the modelled
  library is structural recursion, except \<open>os.makedirs\<close>, a \<open>function\<close> that recurses on
  a shorter path. Pixel values are \<open>8 word\<close>s, so the wrap-around of libImaging's byte
  arithmetic is that of the machine; \<open>muldiv255_rounds\<close> shows it never overflows.

  \<^bold>\<open>Not modelled.\<close> Pixel values computed by the convolution kernel (only its
  contract is used: the kernel computes its coefficients in floating point with
  \<open>sin\<close>, which has no exact executable counterpart), palette and bilevel images,
  the byte-level PNG and ICO encodings (a file holds the encoded image value; zlib is
  out of scope), the removal of a half-written file when an encoder fails (no encoder fails
  on the images the script saves), \<open>.\<close> and \<open>..\<close> in path strings, floating-point
  rounding in Pillow's aspect-ratio computation (done in exact arithmetic here), and
  standard error.
\<close>

section \<open>Example data\<close>

text \<open>
  A project \<open>/proj\<close> holding a one-pixel \<open>logo.png\<close> and nothing else, and the script
  at \<open>/proj/scripts/process_logo.py\<close>.
\<close>
definition demo_image :: image where
  "demo_image = \<lparr>im_mode = RGBA, im_width = 1, im_height = 1,
                  im_pixels = [[0, 0, 0, 255]], im_transparency = None\<rparr>"

definition demo_world :: fsworld where
  "demo_world = \<lparr>fs = [([], Dir), ([''proj''], Dir), ([''proj'', ''logo.png''], File (PNG_file demo_image))],
                  cwd = [], readonly = [], stdout = [], events = []\<rparr>"

definition demo_script :: path where
  "demo_script = [''proj'', ''scripts'', ''process_logo.py'']"

text \<open>The same project before \<open>logo.png\<close> is put there.\<close>
definition demo_bare_world :: fsworld where
  "demo_bare_world = \<lparr>fs = [([], Dir), ([''proj''], Dir)],
                       cwd = [], readonly = [], stdout = [], events = []\<rparr>"

text \<open>The project with a file where \<open>public\<close> should be, and with a \<open>logo.png\<close> that is no image.\<close>
definition demo_public_file_world :: fsworld where
  "demo_public_file_world =
     \<lparr>fs = [([], Dir), ([''proj''], Dir), ([''proj'', ''logo.png''], File (PNG_file demo_image)),
            ([''proj'', ''public''], File (Other_file []))],
      cwd = [], readonly = [], stdout = [], events = []\<rparr>"

definition demo_bad_logo_world :: fsworld where
  "demo_bad_logo_world =
     \<lparr>fs = [([], Dir), ([''proj''], Dir), ([''proj'', ''logo.png''], File (Other_file [137, 80]))],
      cwd = [], readonly = [], stdout = [], events = []\<rparr>"

text \<open>The project with a directory where \<open>logo-md.png\<close> should be written.\<close>
definition demo_md_dir_world :: fsworld where
  "demo_md_dir_world =
     \<lparr>fs = [([], Dir), ([''proj''], Dir), ([''proj'', ''logo.png''], File (PNG_file demo_image)),
            ([''proj'', ''public''], Dir), ([''proj'', ''public'', ''images''], Dir),
            ([''proj'', ''public'', ''images'', ''logo-md.png''], Dir)],
      cwd = [], readonly = [], stdout = [], events = []\<rparr>"

text \<open>The project with \<open>public/images\<close> in place, as the current directory.\<close>
definition demo_images_world :: fsworld where
  "demo_images_world =
     \<lparr>fs = [([], Dir), ([''proj''], Dir), ([''proj'', ''public''], Dir), ([''proj'', ''public'', ''images''], Dir)],
      cwd = [''proj''], readonly = [], stdout = [], events = []\<rparr>"

text \<open>A project whose \<open>logo.png\<close> is already 256 pixels square and half transparent.\<close>
definition demo_big_image :: image where
  "demo_big_image = \<lparr>im_mode = RGBA, im_width = 256, im_height = 256,
                      im_pixels = replicate 65536 [255, 0, 0, 128], im_transparency = None\<rparr>"

definition demo_big_world :: fsworld where
  "demo_big_world = \<lparr>fs = [([], Dir), ([''proj''], Dir), ([''proj'', ''logo.png''], File (PNG_file demo_big_image))],
                      cwd = [], readonly = [], stdout = [], events = []\<rparr>"

text \<open>The example project meets every hypothesis of the success theorems.\<close>
lemma demo_world_facts:
  "wf_world demo_world" "project_root demo_script = [''proj'']"
  "node_at demo_world [''proj''] = Some Dir" "outputs_writable demo_world [''proj'']"
  "node_at demo_world ([''proj''] @ [''logo.png'']) = Some (File (PNG_file demo_image))"
  "decode (PNG_file demo_image) = Inr demo_image"
  by (simp_all add: demo_world_def wf_world_def fs_ok_def demo_script_def project_root_def script_dir_def
                    outputs_writable_def images_dir_ok_def output_file_def images_dir_def
                    demo_image_def wf_image_def straight_def)

lemma demo_big_world_facts:
  "wf_world demo_big_world" "node_at demo_big_world [''proj''] = Some Dir"
  "outputs_writable demo_big_world [''proj'']"
  "node_at demo_big_world ([''proj''] @ [''logo.png'']) = Some (File (PNG_file demo_big_image))"
  "decode (PNG_file demo_big_image) = Inr demo_big_image"
  "im_width demo_big_image = 256" "im_height demo_big_image = 256"
  by (simp_all add: demo_big_world_def wf_world_def fs_ok_def outputs_writable_def images_dir_ok_def
                    output_file_def images_dir_def demo_big_image_def wf_image_def straight_def
                    list_all_iff)

section \<open>The script as a whole\<close>

text \<open>
  C1: run in a project whose \<open>logo.png\<close> is an image Pillow opens, with nothing
  read-only where the script writes, the script exits with status 0 and leaves four files:
  \<open>RGBA\<close> PNGs of exactly 64, 128 and 256 pixels square, whatever the size and aspect of
  the input, and an ICO with square \<open>RGBA\<close> frames of 16, 24 and 32 pixels. It prints
  the four \<open>Created\<close> lines and the success line, leaves the current directory at the
  project root, and changes no other path than \<open>public\<close>, \<open>public/images\<close> and the
  four outputs.
\<close>
theorem main_success:
  assumes wf: "wf_world w" and rs: "resampler_ok rs"
    and root: "project_root script_file = root" and rootd: "node_at w root = Some Dir"
    and ow: "outputs_writable w root"
    and inp: "node_at w (root @ [''logo.png'']) = Some (File c)"
    and dec: "decode c = Inr opened"
  shows "\<exists>w'. run_script rs script_file w = (0, w') \<and> cwd w' = root \<and>
           png_at w' (output_file root ''logo-sm.png'') 64 \<and>
           png_at w' (output_file root ''logo-md.png'') 128 \<and>
           png_at w' (output_file root ''logo-lg.png'') 256 \<and>
           ico_at w' (output_file root ''favicon.ico'') [16, 24, 32] \<and>
           stdout w' = stdout w @ [''Created public/images/logo-sm.png'',
                                   ''Created public/images/logo-md.png'',
                                   ''Created public/images/logo-lg.png'',
                                   ''Created public/images/favicon.ico'',
                                   ''Logo processing completed successfully!''] \<and>
           (\<forall>p. p \<notin> {root @ [''public''], images_dir root} \<union>
                    output_file root ` {''logo-sm.png'', ''logo-md.png'', ''logo-lg.png'', ''favicon.ico''}
                \<longrightarrow> node_at w' p = node_at w p)"
proof -
  obtain a b d frs where sa: "sized RGBA 64 64 a" and sb: "sized RGBA 128 128 b"
    and sd: "sized RGBA 256 256 d" and sfr: "list_all2 (\<lambda>f s. sized RGBA s s f) frs [16, 24, 32]"
    and run: "\<And>u. wf_world u \<Longrightarrow> node_at u root = Some Dir \<Longrightarrow> outputs_writable u root \<Longrightarrow>
                node_at u (root @ [''logo.png'']) = Some (File c) \<Longrightarrow>
                run_script rs script_file u =
                  (0, let v = variants_world (u\<lparr>cwd := root, events := events u @ [Ev_chdir root]\<rparr>)
                                             root a b d frs
                      in v\<lparr>stdout := stdout v @ [''Logo processing completed successfully!'']\<rparr>)"
    using rs root dec by (rule run_script_success) (rule that; assumption)
  define w0 where "w0 = w\<lparr>cwd := root, events := events w @ [Ev_chdir root]\<rparr>"
  define w' where "w' = (let v = variants_world w0 root a b d frs
                         in v\<lparr>stdout := stdout v @ [''Logo processing completed successfully!'']\<rparr>)"
  have r: "run_script rs script_file w = (0, w')"
    unfolding w'_def w0_def using wf rootd ow inp by (rule run)
  have nd: "node_at w' p = node_at (variants_world w0 root a b d frs) p" for p
    by (simp add: w'_def Let_def)
  show ?thesis
  proof (intro exI conjI allI impI)
    show "run_script rs script_file w = (0, w')" by (rule r)
    show "cwd w' = root" by (simp add: w'_def variants_world_def Let_def w0_def)
    show "png_at w' (output_file root ''logo-sm.png'') 64" using sa
      by (simp add: png_at_def nd node_at_variants_world)
    show "png_at w' (output_file root ''logo-md.png'') 128" using sb
      by (simp add: png_at_def nd node_at_variants_world)
    show "png_at w' (output_file root ''logo-lg.png'') 256" using sd
      by (simp add: png_at_def nd node_at_variants_world)
    show "ico_at w' (output_file root ''favicon.ico'') [16, 24, 32]" using sfr
      by (simp add: ico_at_def nd node_at_variants_world)
    show "stdout w' = stdout w @ [''Created public/images/logo-sm.png'',
                                   ''Created public/images/logo-md.png'',
                                   ''Created public/images/logo-lg.png'',
                                   ''Created public/images/favicon.ico'',
                                   ''Logo processing completed successfully!'']"
      by (simp add: w'_def variants_world_def Let_def w0_def)
  next
    fix p
    assume "p \<notin> {root @ [''public''], images_dir root} \<union>
              output_file root ` {''logo-sm.png'', ''logo-md.png'', ''logo-lg.png'', ''favicon.ico''}"
    then show "node_at w' p = node_at w p"
      by (auto simp: nd node_at_variants_world node_at_ensure_dirs prefix_two w0_def images_dir_def)
  qed
qed

theorem main_success_witness:
  "\<exists>w'. run_script (\<lambda>f. nearest_pixels) demo_script demo_world = (0, w') \<and>
        png_at w' [''proj'', ''public'', ''images'', ''logo-sm.png''] 64 \<and>
        ico_at w' [''proj'', ''public'', ''images'', ''favicon.ico''] [16, 24, 32]"
  using main_success [OF demo_world_facts(1) resampler_ok_nearest demo_world_facts(2-6)]
  by (auto simp: output_file_def images_dir_def)

text \<open>
  C2: when \<open>logo.png\<close> does not exist in the project root, the script changes no
  file or directory at all: it only changes to the project root and prints the two
  error lines, and it exits with status 0.
\<close>
theorem main_missing_input:
  assumes wf: "wf_world w" and root: "project_root script_file = root"
    and rootd: "node_at w root = Some Dir" and missing: "node_at w (root @ [''logo.png'']) = None"
  shows "run_script rs script_file w =
           (0, w\<lparr>cwd := root,
                 stdout := stdout w @ [''Error: Could not find logo file at logo.png'',
                                       ''Please place the logo.png file in the project root directory.''],
                 events := events w @ [Ev_chdir root]\<rparr>)"
proof -
  have ch: "chdir (project_root script_file) w =
              (Inr (), w\<lparr>cwd := root, events := events w @ [Ev_chdir root]\<rparr>)"
    unfolding root using wf rootd by (rule chdir_dir)
  from wf rootd have "wf_world (w\<lparr>cwd := root, events := events w @ [Ev_chdir root]\<rparr>)"
    by (simp add: wf_world_def)
  with missing have "os_path_exists input_name (w\<lparr>cwd := root, events := events w @ [Ev_chdir root]\<rparr>) =
                       (Inr False, w\<lparr>cwd := root, events := events w @ [Ev_chdir root]\<rparr>)"
    by (simp add: os_path_exists_apply resolve_input_name)
  with ch show ?thesis
    by (simp add: run_script_def main_def process_found_def report_missing_def io_simps print_apply input_name_def)
qed

theorem main_missing_input_witness:
  "run_script (\<lambda>f. nearest_pixels) demo_script demo_bare_world =
     (0, demo_bare_world\<lparr>cwd := [''proj''],
           stdout := [''Error: Could not find logo file at logo.png'',
                      ''Please place the logo.png file in the project root directory.''],
           events := [Ev_chdir [''proj'']]\<rparr>)"
proof -
  have "wf_world demo_bare_world" by (simp add: demo_bare_world_def wf_world_def fs_ok_def)
  moreover have "project_root demo_script = [''proj'']"
    by (simp add: demo_script_def project_root_def script_dir_def)
  moreover have "node_at demo_bare_world [''proj''] = Some Dir"
    and "node_at demo_bare_world [''proj'', ''logo.png''] = None"
    by (simp_all add: demo_bare_world_def)
  ultimately show ?thesis
    using main_missing_input [of demo_bare_world demo_script "[''proj'']" "\<lambda>f. nearest_pixels"]
    by (simp add: demo_bare_world_def)
qed

text \<open>
  C3: when \<open>public\<close> is a file, \<open>os.makedirs\<close> raises \<open>NotADirectoryError\<close>: the
  script exits with status 1 having changed nothing but its current directory, and
  printed nothing.
\<close>
theorem main_public_is_file:
  assumes wf: "wf_world w" and root: "project_root script_file = root"
    and rootd: "node_at w root = Some Dir" and inp: "node_at w (root @ [''logo.png'']) \<noteq> None"
    and pub: "node_at w (root @ [''public'']) = Some (File x)"
  shows "run_script rs script_file w = (1, w\<lparr>cwd := root, events := events w @ [Ev_chdir root]\<rparr>)"
proof -
  let ?w0 = "w\<lparr>cwd := root, events := events w @ [Ev_chdir root]\<rparr>"
  have "wf_world ?w0" using wf rootd by (rule chdir_root_wf)
  moreover have "cwd ?w0 = root" and "node_at ?w0 (root @ [''public'']) = Some (File x)"
    using pub by simp_all
  ultimately have mk: "os_makedirs output_dir True ?w0 = (Inl NotADirectoryError, ?w0)"
    by (rule makedirs_output_dir_blocked)
  show ?thesis
    using run_script_found [OF wf root rootd inp]
    by (simp add: create_logo_variants_def open_rgba_def io_simps mk)
qed

theorem main_public_is_file_witness:
  "run_script (\<lambda>f. nearest_pixels) demo_script demo_public_file_world =
     (1, demo_public_file_world\<lparr>cwd := [''proj''], events := [Ev_chdir [''proj'']]\<rparr>)"
proof -
  have "wf_world demo_public_file_world"
    by (simp add: demo_public_file_world_def wf_world_def fs_ok_def)
  moreover have "project_root demo_script = [''proj'']"
    by (simp add: demo_script_def project_root_def script_dir_def)
  moreover have "node_at demo_public_file_world [''proj''] = Some Dir"
    and "node_at demo_public_file_world [''proj'', ''logo.png''] \<noteq> None"
    and "node_at demo_public_file_world [''proj'', ''public''] = Some (File (Other_file []))"
    by (simp_all add: demo_public_file_world_def)
  ultimately show ?thesis
    using main_public_is_file [of demo_public_file_world demo_script "[''proj'']"
                                  "Other_file []" "\<lambda>f. nearest_pixels"]
    by (simp add: demo_public_file_world_def)
qed

text \<open>
  C4: when \<open>logo.png\<close> exists but Pillow cannot open it (it is a directory, which
  \<open>os.path.exists\<close> accepts, or a file that is not an image of a supported mode), the
  script exits with status 1, and \<open>public/images\<close> has been created all the same,
  because \<open>os.makedirs\<close> runs before \<open>Image.open\<close>. Nothing else changes and
  nothing is printed.
\<close>
theorem main_open_fails:
  assumes wf: "wf_world w" and root: "project_root script_file = root"
    and rootd: "node_at w root = Some Dir" and dirs: "images_dir_ok w root"
    and bad: "node_at w (root @ [''logo.png'']) = Some Dir \<or>
              (\<exists>c e. node_at w (root @ [''logo.png'']) = Some (File c) \<and> decode c = Inl e)"
  shows "run_script rs script_file w =
           (1, ensure_dirs (w\<lparr>cwd := root, events := events w @ [Ev_chdir root]\<rparr>) root [''public'', ''images''])"
proof -
  let ?w0 = "w\<lparr>cwd := root, events := events w @ [Ev_chdir root]\<rparr>"
  let ?w1 = "ensure_dirs ?w0 root [''public'', ''images'']"
  have wf0: "wf_world ?w0" using wf rootd by (rule chdir_root_wf)
  have "cwd ?w0 = root" and "node_at ?w0 root = Some Dir" and "images_dir_ok ?w0 root"
    using rootd dirs by (simp_all add: images_dir_ok_def)
  with wf0 have mk: "os_makedirs output_dir True ?w0 = (Inr (), ?w1)"
    by (rule makedirs_output_dir)
  have "wf_world ?w1" using wf0 rootd by (intro ensure_dirs_wf) simp_all
  moreover have "cwd ?w1 = root" by simp
  moreover have "node_at ?w1 (root @ [''logo.png'']) = node_at w (root @ [''logo.png''])"
    by (simp add: node_at_script_dirs)
  ultimately obtain e where op: "at_path input_name image_open ?w1 = (Inl e, ?w1)"
    using open_input_fails bad by metis
  from bad have inp: "node_at w (root @ [''logo.png'']) \<noteq> None" by auto
  show ?thesis
    using run_script_found [OF wf root rootd inp]
    by (simp add: create_logo_variants_def open_rgba_def io_simps mk op)
qed

theorem main_open_fails_witness:
  "run_script (\<lambda>f. nearest_pixels) demo_script demo_bad_logo_world =
     (1, ensure_dirs (demo_bad_logo_world\<lparr>cwd := [''proj''], events := [Ev_chdir [''proj'']]\<rparr>)
           [''proj''] [''public'', ''images''])"
proof -
  have "wf_world demo_bad_logo_world"
    by (simp add: demo_bad_logo_world_def wf_world_def fs_ok_def)
  moreover have "project_root demo_script = [''proj'']"
    by (simp add: demo_script_def project_root_def script_dir_def)
  moreover have "node_at demo_bad_logo_world [''proj''] = Some Dir"
    by (simp add: demo_bad_logo_world_def)
  moreover have "images_dir_ok demo_bad_logo_world [''proj'']"
    by (simp add: demo_bad_logo_world_def images_dir_ok_def images_dir_def)
  moreover have "\<exists>c e. node_at demo_bad_logo_world [''proj'', ''logo.png''] = Some (File c) \<and>
                       decode c = Inl e"
    by (simp add: demo_bad_logo_world_def)
  ultimately show ?thesis
    using main_open_fails [of demo_bad_logo_world demo_script "[''proj'']" "\<lambda>f. nearest_pixels"]
    by (simp add: demo_bad_logo_world_def)
qed

text \<open>
  C5: the writes are not transactional. When \<open>logo-md.png\<close> is a directory, the
  script writes \<open>logo-sm.png\<close>, prints its line, then raises \<open>IsADirectoryError\<close>
  and exits with status 1: the small variant stays on disk, the others and the favicon
  are never written.
\<close>
theorem main_partial_write:
  assumes wf: "wf_world w" and rs: "resampler_ok rs" and root: "project_root script_file = root"
    and rootd: "node_at w root = Some Dir" and dirs: "images_dir_ok w root"
    and inp: "node_at w (root @ [''logo.png'']) = Some (File c)" and dec: "decode c = Inr opened"
    and sm: "file_writable w (output_file root ''logo-sm.png'')"
    and md: "node_at w (output_file root ''logo-md.png'') = Some Dir"
  shows "\<exists>a. sized RGBA 64 64 a \<and>
           run_script rs script_file w =
             (1, (written (ensure_dirs (w\<lparr>cwd := root, events := events w @ [Ev_chdir root]\<rparr>)
                                       root [''public'', ''images''])
                          (output_file root ''logo-sm.png'') (PNG_file a))
                   \<lparr>stdout := stdout w @ [''Created public/images/logo-sm.png'']\<rparr>)"
proof -
  obtain img a b d fav frs where cv: "convert opened RGBA = Inr img"
    and ra: "resize rs img (64, 64) LANCZOS = Inr a" and sa: "sized RGBA 64 64 a"
    and rb: "resize rs img (128, 128) LANCZOS = Inr b" and sb: "sized RGBA 128 128 b"
    using rs dec by (rule script_images)
  let ?w0 = "w\<lparr>cwd := root, events := events w @ [Ev_chdir root]\<rparr>"
  let ?w1 = "ensure_dirs ?w0 root [''public'', ''images'']"
  let ?w2 = "written ?w1 (output_file root ''logo-sm.png'') (PNG_file a)"
  have wf0: "wf_world ?w0" using wf rootd by (rule chdir_root_wf)
  have "cwd ?w0 = root" and "node_at ?w0 root = Some Dir" and "images_dir_ok ?w0 root"
    using rootd dirs by (simp_all add: images_dir_ok_def)
  with wf0 have mk: "os_makedirs output_dir True ?w0 = (Inr (), ?w1)"
    by (rule makedirs_output_dir)
  have wf1: "wf_world ?w1" using wf0 rootd by (intro ensure_dirs_wf) simp_all
  have nd1: "node_at ?w1 (root @ [n]) = node_at w (root @ [n])" if "n \<noteq> ''public''" for n
    using that by (simp add: node_at_script_dirs)
  have nf1: "node_at ?w1 (output_file root n) = node_at w (output_file root n)" for n
    by (simp add: node_at_script_dirs output_file_def images_dir_def)
  have dir1: "node_at ?w1 (images_dir root) = Some Dir"
    by (simp add: node_at_script_dirs images_dir_def)
  have op: "at_path input_name image_open ?w1 = (Inr opened, ?w1)"
    using open_input [OF wf1, of root c] inp dec nd1 [of "''logo.png''"] by simp
  have pm: "png_mode RGBA" by (simp add: png_mode_def straight_def)
  have fw1: "file_writable ?w1 (output_file root ''logo-sm.png'')"
    using sm by (subst file_writable_same [OF nf1]) simp_all
  have s1: "save_variant rs img (''sm'', 64) ?w1 =
              (Inr (), ?w2\<lparr>stdout := stdout w @ [''Created '' @ variant_path ''sm'']\<rparr>)"
    using wf1 _ dir1 _ ra _ fw1 by (subst save_variant_ok) (use sa pm in \<open>simp_all add: sized_def\<close>)
  have wf2: "wf_world ?w2"
    using wf1 _ _ fw1 by (intro written_wf) (use dir1 in \<open>auto simp: file_writable_def\<close>)
  have s2: "save_variant rs img (''md'', 128) (?w2\<lparr>stdout := x\<rparr>) = (Inl IsADirectoryError, ?w2\<lparr>stdout := x\<rparr>)"
    for x using wf2 md sb pm
    by (intro save_variant_dir [where root = root and r = b]) (simp_all add: sized_def nf1 rb)
  show ?thesis
    using run_script_found [OF wf root rootd] inp sa
    by (auto simp: create_logo_variants_def open_rgba_def io_simps mk op cv logo_sizes_def s1 s2 variant_path_def)
qed

theorem main_partial_write_witness:
  "\<exists>a. sized RGBA 64 64 a \<and>
     run_script (\<lambda>f. nearest_pixels) demo_script demo_md_dir_world =
       (1, (written (ensure_dirs (demo_md_dir_world\<lparr>cwd := [''proj''], events := [Ev_chdir [''proj'']]\<rparr>)
                                 [''proj''] [''public'', ''images''])
                    [''proj'', ''public'', ''images'', ''logo-sm.png''] (PNG_file a))
             \<lparr>stdout := [''Created public/images/logo-sm.png'']\<rparr>)"
proof -
  have "wf_world demo_md_dir_world"
    by (simp add: demo_md_dir_world_def wf_world_def fs_ok_def)
  moreover have "project_root demo_script = [''proj'']"
    by (simp add: demo_script_def project_root_def script_dir_def)
  moreover have "node_at demo_md_dir_world [''proj''] = Some Dir"
    and "node_at demo_md_dir_world [''proj'', ''logo.png''] = Some (File (PNG_file demo_image))"
    and "node_at demo_md_dir_world [''proj'', ''public'', ''images'', ''logo-md.png''] = Some Dir"
    by (simp_all add: demo_md_dir_world_def)
  moreover have "images_dir_ok demo_md_dir_world [''proj'']"
    by (simp add: demo_md_dir_world_def images_dir_ok_def images_dir_def)
  moreover have "file_writable demo_md_dir_world [''proj'', ''public'', ''images'', ''logo-sm.png'']"
    by (simp add: demo_md_dir_world_def file_writable_def)
  moreover have "decode (PNG_file demo_image) = Inr demo_image"
    by (simp add: demo_image_def wf_image_def straight_def)
  ultimately show ?thesis
    using main_partial_write [of demo_md_dir_world "\<lambda>f. nearest_pixels" demo_script "[''proj'']"
                                 "PNG_file demo_image" demo_image]
    by (simp add: resampler_ok_nearest output_file_def images_dir_def demo_md_dir_world_def)
qed

text \<open>
  C6: running the script a second time over the outputs of a first run, with the same
  \<open>logo.png\<close>, succeeds again and leaves the file system exactly as the first run left it.
\<close>
theorem main_idempotent:
  assumes wf: "wf_world w" and rs: "resampler_ok rs"
    and root: "project_root script_file = root" and rootd: "node_at w root = Some Dir"
    and ow: "outputs_writable w root"
    and inp: "node_at w (root @ [''logo.png'']) = Some (File c)"
    and dec: "decode c = Inr opened"
  shows "\<exists>w1 w2. run_script rs script_file w = (0, w1) \<and> run_script rs script_file w1 = (0, w2) \<and>
                fs w2 = fs w1"
proof -
  obtain a b d frs
    where run: "\<And>u. wf_world u \<Longrightarrow> node_at u root = Some Dir \<Longrightarrow> outputs_writable u root \<Longrightarrow>
                node_at u (root @ [''logo.png'']) = Some (File c) \<Longrightarrow>
                run_script rs script_file u =
                  (0, let v = variants_world (u\<lparr>cwd := root, events := events u @ [Ev_chdir root]\<rparr>)
                                             root a b d frs
                      in v\<lparr>stdout := stdout v @ [''Logo processing completed successfully!'']\<rparr>)"
    using rs root dec by (rule run_script_success) (rule that; assumption)
  define v where "v = (\<lambda>u :: fsworld. variants_world (u\<lparr>cwd := root, events := events u @ [Ev_chdir root]\<rparr>)
                                          root a b d frs)"
  define w1 where "w1 = (v w)\<lparr>stdout := stdout (v w) @ [''Logo processing completed successfully!'']\<rparr>"
  have run1: "run_script rs script_file w = (0, w1)"
    using run [OF wf rootd ow inp] by (simp add: w1_def v_def Let_def)
  have nd1: "node_at w1 p = node_at (v w) p" for p by (simp add: w1_def)
  have wf1: "wf_world w1"
    using io_invD [OF main_wf wf, of rs script_file] run1 run_script_snd [of rs script_file w]
    by (metis prod.collapse snd_conv)
  have rootd1: "node_at w1 root = Some Dir" using rootd
    by (simp add: nd1 v_def node_at_variants_world node_at_ensure_dirs output_file_def images_dir_def)
  have ow1: "outputs_writable w1 root"
  proof -
    have "outputs_writable (w\<lparr>cwd := root, events := events w @ [Ev_chdir root]\<rparr>) root"
      using ow by (simp add: outputs_writable_def images_dir_ok_def)
    then have "outputs_writable (v w) root" unfolding v_def by (rule outputs_writable_variants_world)
    then show ?thesis by (simp add: w1_def outputs_writable_def images_dir_ok_def)
  qed
  have inp1: "node_at w1 (root @ [''logo.png'']) = Some (File c)" using inp
    by (simp add: nd1 v_def node_at_variants_world node_at_script_dirs output_file_def images_dir_def)
  define w2 where "w2 = (v w1)\<lparr>stdout := stdout (v w1) @ [''Logo processing completed successfully!'']\<rparr>"
  have run2: "run_script rs script_file w1 = (0, w2)"
    using run [OF wf1 rootd1 ow1 inp1] by (simp add: w2_def v_def Let_def)
  let ?u = "w1\<lparr>cwd := root, events := events w1 @ [Ev_chdir root]\<rparr>"
  have "fs (variants_world ?u root a b d frs) = fs ?u"
    by (rule fs_variants_world_same)
       (use wf1 rootd1 in \<open>simp_all add: chdir_root_wf nd1 v_def node_at_variants_world
                                          node_at_script_dirs images_dir_def output_file_def\<close>)
  then have "fs w2 = fs w1" by (simp add: w2_def v_def)
  with run1 run2 show ?thesis by blast
qed

theorem main_idempotent_witness:
  "\<exists>w1 w2. run_script (\<lambda>f. nearest_pixels) demo_script demo_world = (0, w1) \<and>
           run_script (\<lambda>f. nearest_pixels) demo_script w1 = (0, w2) \<and> fs w2 = fs w1"
  using main_idempotent [OF demo_world_facts(1) resampler_ok_nearest demo_world_facts(2-6)] .

text \<open>
  C7: the file-system calls of a successful run come in the order of the code: the
  \<open>chdir\<close>, then at most the two \<open>mkdir\<close>s of \<open>public\<close> and \<open>public/images\<close>, then
  the writes of \<open>logo-sm.png\<close>, \<open>logo-md.png\<close>, \<open>logo-lg.png\<close> (the insertion
  order of the \<open>sizes\<close> dictionary) and last \<open>favicon.ico\<close>.
\<close>
theorem main_event_order:
  assumes wf: "wf_world w" and rs: "resampler_ok rs"
    and root: "project_root script_file = root" and rootd: "node_at w root = Some Dir"
    and ow: "outputs_writable w root"
    and inp: "node_at w (root @ [''logo.png'']) = Some (File c)"
    and dec: "decode c = Inr opened"
  shows "\<exists>w' ms. run_script rs script_file w = (0, w') \<and>
           events w' = events w @ [Ev_chdir root] @ ms @
                       map (\<lambda>n. Ev_write (output_file root n))
                           [''logo-sm.png'', ''logo-md.png'', ''logo-lg.png'', ''favicon.ico''] \<and>
           set ms \<subseteq> {Ev_mkdir (root @ [''public'']), Ev_mkdir (images_dir root)}"
proof -
  obtain a b d frs
    where run: "\<And>u. wf_world u \<Longrightarrow> node_at u root = Some Dir \<Longrightarrow> outputs_writable u root \<Longrightarrow>
                node_at u (root @ [''logo.png'']) = Some (File c) \<Longrightarrow>
                run_script rs script_file u =
                  (0, let v = variants_world (u\<lparr>cwd := root, events := events u @ [Ev_chdir root]\<rparr>)
                                             root a b d frs
                      in v\<lparr>stdout := stdout v @ [''Logo processing completed successfully!'']\<rparr>)"
    using rs root dec by (rule run_script_success) (rule that; assumption)
  let ?w0 = "w\<lparr>cwd := root, events := events w @ [Ev_chdir root]\<rparr>"
  obtain ms where ms: "events (ensure_dirs ?w0 root [''public'', ''images'']) = events ?w0 @ ms"
    and sub: "set ms \<subseteq> {Ev_mkdir (root @ q) | q. q \<noteq> [] \<and> prefix q [''public'', ''images'']}"
    using events_ensure_dirs by blast
  from sub have "set ms \<subseteq> {Ev_mkdir (root @ [''public'']), Ev_mkdir (images_dir root)}"
    by (auto simp: prefix_two images_dir_def)
  moreover have "events (variants_world ?w0 root a b d frs) =
                   events w @ [Ev_chdir root] @ ms @
                   map (\<lambda>n. Ev_write (output_file root n))
                       [''logo-sm.png'', ''logo-md.png'', ''logo-lg.png'', ''favicon.ico'']"
    using ms by (simp add: variants_world_def Let_def)
  ultimately show ?thesis using run [OF wf rootd ow inp] by (auto simp: Let_def)
qed


theorem main_event_order_witness:
  "\<exists>w' ms. run_script (\<lambda>f. nearest_pixels) demo_script demo_world = (0, w') \<and>
     events w' = [Ev_chdir [''proj'']] @ ms @
                 map (\<lambda>n. Ev_write [''proj'', ''public'', ''images'', n])
                     [''logo-sm.png'', ''logo-md.png'', ''logo-lg.png'', ''favicon.ico''] \<and>
     set ms \<subseteq> {Ev_mkdir [''proj'', ''public''], Ev_mkdir [''proj'', ''public'', ''images'']}"
  using main_event_order [OF demo_world_facts(1) resampler_ok_nearest demo_world_facts(2-6)]
  by (simp add: demo_world_def output_file_def images_dir_def)

text \<open>
  C8: the loop over \<open>sizes.items()\<close> (lines 22--26) is, for any list of entries with
  distinct names that can be saved, the same as the reference \<open>variants_written\<close>: one
  write and one printed line per entry, in the list's order. The script's three entries
  are one instance; the specification's wish for a configurable size list is met by the
  loop as written.
\<close>
theorem save_variants_equiv:
  assumes "wf_world w" and "cwd w = root" and "node_at w (images_dir root) = Some Dir"
    and "distinct (map fst entries)" and "list_all (entry_ok rs img w root) entries"
  shows "save_variants rs img entries w = (Inr (), variants_written rs img root entries w)"
  using assms
proof (induction entries arbitrary: w)
  case Nil
  then show ?case by (simp add: io_simps)
next
  case (Cons e entries)
  obtain name side where e: "e = (name, side)" by (cases e)
  from Cons.prems(5) e obtain r where slash: "CHR ''/'' \<notin> set name"
    and rz: "resize rs img (side, side) LANCZOS = Inr r" and pm: "png_mode (im_mode r)"
    and fw: "file_writable w (output_file root (''logo-'' @ name @ ''.png''))"
    by (auto simp: entry_ok_def split: sum.splits)
  define w' where "w' = (written w (output_file root (''logo-'' @ name @ ''.png'')) (PNG_file r))
                          \<lparr>stdout := stdout w @ [''Created '' @ variant_path name]\<rparr>"
  have step: "save_variant rs img (name, side) w = (Inr (), w')"
    unfolding w'_def using Cons.prems(1-3) slash rz pm fw by (rule save_variant_ok)
  have "node_at w (output_file root (''logo-'' @ name @ ''.png'')) \<noteq> Some Dir"
    using fw by (auto simp: file_writable_def)
  with Cons.prems(1,3) have wf': "wf_world w'"
    unfolding w'_def by (simp add: written_wf)
  have "entry_ok rs img w' root e'" if "e' \<in> set entries" for e'
  proof -
    from Cons.prems(5) that have "entry_ok rs img w root e'" by (simp add: list_all_iff)
    moreover from Cons.prems(4) e that have "fst e' \<noteq> name" by force
    ultimately show ?thesis unfolding w'_def by (rule entry_ok_step)
  qed
  then have rest: "list_all (entry_ok rs img w' root) entries" by (simp add: list_all_iff)
  have "save_variants rs img entries w' = (Inr (), variants_written rs img root entries w')"
    using wf' _ _ _ rest by (rule Cons.IH) (use Cons.prems(2-4) in \<open>simp_all add: w'_def\<close>)
  with step e rz show ?case by (simp add: io_simps w'_def)
qed

theorem save_variants_equiv_witness:
  "save_variants (\<lambda>f. nearest_pixels) demo_image [(''xs'', 1), (''ys'', 1)] demo_images_world =
     (Inr (), variants_written (\<lambda>f. nearest_pixels) demo_image [''proj''] [(''xs'', 1), (''ys'', 1)]
                demo_images_world)"
proof (rule save_variants_equiv)
  show "wf_world demo_images_world" by (simp add: demo_images_world_def wf_world_def fs_ok_def)
  show "cwd demo_images_world = [''proj'']" by (simp add: demo_images_world_def)
  show "node_at demo_images_world (images_dir [''proj'']) = Some Dir"
    by (simp add: demo_images_world_def images_dir_def)
  show "distinct (map fst [(''xs'', 1::nat), (''ys'', 1)])" by simp
  show "list_all (entry_ok (\<lambda>f. nearest_pixels) demo_image demo_images_world [''proj''])
          [(''xs'', 1), (''ys'', 1)]"
    by (simp add: entry_ok_def resize_def demo_image_def png_mode_def straight_def file_writable_def
                  demo_images_world_def output_file_def images_dir_def)
qed

text \<open>
  C9: when the input is already 256 pixels square, \<open>logo-lg.png\<close> is not resampled at
  all (Pillow's \<open>resize\<close> copies an image of the requested size), so its alpha band is
  exactly the transparency of the input, pixel by pixel, as \<open>convert('RGBA')\<close> computes it.
\<close>
theorem main_lg_alpha:
  assumes wf: "wf_world w" and rs: "resampler_ok rs"
    and root: "project_root script_file = root" and rootd: "node_at w root = Some Dir"
    and ow: "outputs_writable w root"
    and inp: "node_at w (root @ [''logo.png'']) = Some (File c)"
    and dec: "decode c = Inr opened"
    and side: "im_width opened = 256" "im_height opened = 256"
  shows "\<exists>w' im. run_script rs script_file w = (0, w') \<and>
            node_at w' (output_file root ''logo-lg.png'') = Some (File (PNG_file im)) \<and>
            map (\<lambda>p. p ! 3) (im_pixels im) = map (alpha_of opened) (im_pixels opened)"
proof -
  obtain a b d frs
    where run: "\<And>u. wf_world u \<Longrightarrow> node_at u root = Some Dir \<Longrightarrow> outputs_writable u root \<Longrightarrow>
                node_at u (root @ [''logo.png'']) = Some (File c) \<Longrightarrow>
                run_script rs script_file u =
                  (0, let v = variants_world (u\<lparr>cwd := root, events := events u @ [Ev_chdir root]\<rparr>)
                                             root a b d frs
                      in v\<lparr>stdout := stdout v @ [''Logo processing completed successfully!'']\<rparr>)"
    and cvd: "\<exists>img. convert opened RGBA = Inr img \<and> resize rs img (256, 256) LANCZOS = Inr d"
    using rs root dec by (rule run_script_success) (rule that; assumption)
  from cvd obtain img where cv: "convert opened RGBA = Inr img"
    and rd: "resize rs img (256, 256) LANCZOS = Inr d" by blast
  from dec have wfo: "wf_image opened" by (simp add: decode_ok)
  with cv have "sized RGBA 256 256 img" using convert_sized [OF wfo cv] side by simp
  with rd have "d = img" by (simp add: resize_def sized_def)
  moreover have "map (\<lambda>p. p ! 3) (im_pixels img) = map (alpha_of opened) (im_pixels opened)"
    using wfo cv by (rule convert_rgba_alpha)
  moreover have "run_script rs script_file w =
                   (0, let v = variants_world (w\<lparr>cwd := root, events := events w @ [Ev_chdir root]\<rparr>)
                                              root a b d frs
                       in v\<lparr>stdout := stdout v @ [''Logo processing completed successfully!'']\<rparr>)"
    using wf rootd ow inp by (rule run)
  ultimately show ?thesis by (simp add: Let_def node_at_variants_world)
qed

theorem main_lg_alpha_witness:
  "\<exists>w' im. run_script (\<lambda>f. nearest_pixels) demo_script demo_big_world = (0, w') \<and>
     node_at w' (output_file [''proj''] ''logo-lg.png'') = Some (File (PNG_file im)) \<and>
     map (\<lambda>p. p ! 3) (im_pixels im) = map (alpha_of demo_big_image) (im_pixels demo_big_image)"
  by (rule main_lg_alpha [OF demo_big_world_facts(1) resampler_ok_nearest demo_world_facts(2)
                             demo_big_world_facts(2-7)])

end
